theory Spec2Isabelle
  imports Main "HOL-Library.Word" "HOL-Library.Tree" "HOL-Library.Multiset"
begin

unbundle bit_operations_syntax

section \<open>Machine types and constants\<close>

type_synonym u8 = "8 word"
type_synonym u16 = "16 word"
type_synonym u32 = "32 word"
type_synonym u64 = "64 word"
type_synonym sector_t = "64 word"

text \<open>
  Modelled from the spec: the errno values come from the kernel's errno headers, which are
  not part of \<^verbatim>\<open>drivers/md/dm-crypt.c\<close>. The driver returns them negated. The spec names
  the conditions (invalid argument, out of memory, busy, in progress, integrity violation,
  I/O error); the numbers below are the Linux ones and only their distinctness matters.
\<close>

definition EIO :: int where "EIO = 5"
definition EAGAIN :: int where "EAGAIN = 11"
definition ENOMEM :: int where "ENOMEM = 12"
definition EBUSY :: int where "EBUSY = 16"
definition EINVAL :: int where "EINVAL = 22"
definition EBADMSG :: int where "EBADMSG = 74"
definition EINPROGRESS :: int where "EINPROGRESS = 115"
definition EKEYREVOKED :: int where "EKEYREVOKED = 128"

text \<open>
  Modelled from the spec: \<^verbatim>\<open>SECTOR_SHIFT\<close> is a block-layer constant declared outside the
  file; the spec fixes the unit ("fixed 512-byte units", "exactly 512-byte sectors").
\<close>

definition SECTOR_SHIFT :: nat where "SECTOR_SHIFT = 9"

datatype data_dir = READ | WRITE

subsection \<open>Byte order\<close>

text \<open>
  \<^verbatim>\<open>cpu_to_le32\<close>, \<^verbatim>\<open>cpu_to_le64\<close> and \<^verbatim>\<open>cpu_to_be64\<close> followed by a store through a
  byte pointer: the value as the list of bytes that lands in memory.
\<close>

definition le_bytes :: "nat \<Rightarrow> 'a::len word \<Rightarrow> u8 list" where
  "le_bytes n w = map (\<lambda>i. ucast (drop_bit (8 * i) w)) [0..<n]"

definition cpu_to_le32 :: "u32 \<Rightarrow> u8 list" where
  "cpu_to_le32 w = le_bytes 4 w"

definition cpu_to_le64 :: "u64 \<Rightarrow> u8 list" where
  "cpu_to_le64 w = le_bytes 8 w"

definition cpu_to_be64 :: "u64 \<Rightarrow> u8 list" where
  "cpu_to_be64 w = rev (le_bytes 8 w)"

text \<open>\<^verbatim>\<open>memset(p, c, n)\<close> and a store of \<open>bs\<close> at byte offset \<open>off\<close> of a buffer.\<close>

definition memset :: "u8 list \<Rightarrow> u8 \<Rightarrow> nat \<Rightarrow> u8 list" where
  "memset buf c n = replicate (min n (length buf)) c @ drop n buf"

definition store_at :: "u8 list \<Rightarrow> nat \<Rightarrow> u8 list \<Rightarrow> u8 list" where
  "store_at buf off bs = take off buf @ bs @ drop (off + length bs) buf"

text \<open>\<^verbatim>\<open>crypto_xor_cpy(dst, a, b, n)\<close>: the \<open>n\<close> bytes written to \<open>dst\<close>.\<close>

definition crypto_xor_cpy :: "u8 list \<Rightarrow> u8 list \<Rightarrow> nat \<Rightarrow> u8 list" where
  "crypto_xor_cpy a b n = map2 (XOR) (take n a) (take n b)"




section \<open>Configuration and requests\<close>

datatype iv_mode =
  IV_plain | IV_plain64 | IV_plain64be | IV_essiv | IV_benbi | IV_null
  | IV_lmk | IV_tcw | IV_random

datatype flags = DM_CRYPT_SUSPENDED | DM_CRYPT_KEY_VALID | DM_CRYPT_SAME_CPU | DM_CRYPT_NO_OFFLOAD

datatype cipher_flags =
  CRYPT_MODE_INTEGRITY_AEAD | CRYPT_IV_LARGE_SECTORS | CRYPT_MODE_DISKCIPHER | CRYPT_MODE_SKCIPHER

text \<open>
  A pointer returned by \<^verbatim>\<open>crypto_alloc_shash\<close>: \<^verbatim>\<open>NULL\<close>, an \<^verbatim>\<open>ERR_PTR\<close> carrying a
  negative errno, or a transform.
\<close>

datatype tfm_ptr = TFM_NULL | TFM_ERR int | TFM_OK

text \<open>
  \<^verbatim>\<open>struct crypt_config\<close>. Pointers to allocated buffers are options (\<open>None\<close> is
  \<^verbatim>\<open>NULL\<close>); the two flag words are the sets of bits that are set; \<open>dev\<close> names the
  underlying device. The members of the union \<^verbatim>\<open>iv_gen_private\<close> are separate fields.
  Pools, queues and the write thread are not part of the record; the write tree is kept
  with the write stage below.
\<close>

record crypt_config =
  dev :: nat
  start :: sector_t
  iv_gen_ops :: "iv_mode option"
  benbi_shift :: nat
  lmk_hash_tfm :: tfm_ptr
  lmk_seed :: "u8 list option"
  tcw_crc32_tfm :: tfm_ptr
  tcw_iv_seed :: "u8 list option"
  tcw_whitening :: "u8 list option"
  iv_offset :: sector_t
  iv_size :: nat
  sector_size :: u16
  sector_shift :: nat
  tfms_count :: nat
  cipher_flags :: "cipher_flags set"
  flags :: "flags set"
  key_size :: nat
  key_parts :: nat
  key_extra_size :: nat
  key_mac_size :: nat
  integrity_tag_size :: nat
  integrity_iv_size :: nat
  on_disk_tag_size :: nat
  tag_pool_max_sectors :: nat
  key_string :: "string option"
  key :: "u8 list"

text \<open>
  \<^verbatim>\<open>struct dm_crypt_request\<close> as the IV generators read it: the sector the IV is derived
  from, the direction of \<^verbatim>\<open>dmreq->ctx->bio_in\<close>, and the bytes of the sector behind
  \<^verbatim>\<open>crypt_get_sg_data(cc, dmreq->sg_in)\<close> and \<^verbatim>\<open>crypt_get_sg_data(cc, dmreq->sg_out)\<close>.
\<close>

record dm_crypt_request =
  iv_sector :: sector_t
  dir :: data_dir
  sg_in_data :: "u8 list"
  sg_out_data :: "u8 list"

text \<open>
  The kernel crypto API and the random pool are outside the file. The generators take
  them as parameters: the single-block cipher of ESSIV, the MD5 state export and the
  CRC32 of the whitening (each with the error code the call returns), and the source of
  random bytes.
\<close>

record crypto_api =
  cipher_encrypt_one :: "u8 list \<Rightarrow> u8 list"
  md5_export :: "u8 list \<Rightarrow> int \<times> u8 list"
  crc32_final :: "u8 list \<Rightarrow> int \<times> u8 list"
  get_random_bytes :: "nat \<Rightarrow> u8 list"

section \<open>IV generators\<close>

definition crypt_iv_plain_gen ::
  "crypt_config \<Rightarrow> u8 list \<Rightarrow> dm_crypt_request \<Rightarrow> int \<times> u8 list" where
  "crypt_iv_plain_gen cc iv dmreq =
     (let iv1 = memset iv 0 (iv_size cc);
          iv2 = store_at iv1 0 (cpu_to_le32 (ucast (iv_sector dmreq AND 0xffffffff)))
      in (0, iv2))"

definition crypt_iv_plain64_gen ::
  "crypt_config \<Rightarrow> u8 list \<Rightarrow> dm_crypt_request \<Rightarrow> int \<times> u8 list" where
  "crypt_iv_plain64_gen cc iv dmreq =
     (let iv1 = memset iv 0 (iv_size cc);
          iv2 = store_at iv1 0 (cpu_to_le64 (iv_sector dmreq))
      in (0, iv2))"

definition crypt_iv_plain64be_gen ::
  "crypt_config \<Rightarrow> u8 list \<Rightarrow> dm_crypt_request \<Rightarrow> int \<times> u8 list" where
  "crypt_iv_plain64be_gen cc iv dmreq =
     (let iv1 = memset iv 0 (iv_size cc);
          iv2 = store_at iv1 (iv_size cc - 8) (cpu_to_be64 (iv_sector dmreq))
      in (0, iv2))"

definition crypt_iv_essiv_gen ::
  "crypto_api \<Rightarrow> crypt_config \<Rightarrow> u8 list \<Rightarrow> dm_crypt_request \<Rightarrow> int \<times> u8 list" where
  "crypt_iv_essiv_gen api cc iv dmreq =
     (let iv1 = memset iv 0 (iv_size cc);
          iv2 = store_at iv1 0 (cpu_to_le64 (iv_sector dmreq))
      in (0, cipher_encrypt_one api iv2))"


definition crypt_iv_benbi_gen ::
  "crypt_config \<Rightarrow> u8 list \<Rightarrow> dm_crypt_request \<Rightarrow> int \<times> u8 list" where
  "crypt_iv_benbi_gen cc iv dmreq =
     (let iv1 = memset iv 0 (iv_size cc - 8);
          val = cpu_to_be64 (push_bit (benbi_shift cc) (iv_sector dmreq) + 1);
          iv2 = store_at iv1 (iv_size cc - 8) val
      in (0, iv2))"

definition crypt_iv_null_gen ::
  "crypt_config \<Rightarrow> u8 list \<Rightarrow> dm_crypt_request \<Rightarrow> int \<times> u8 list" where
  "crypt_iv_null_gen cc iv dmreq = (0, memset iv 0 (iv_size cc))"

definition crypt_iv_random_gen ::
  "crypto_api \<Rightarrow> crypt_config \<Rightarrow> u8 list \<Rightarrow> dm_crypt_request \<Rightarrow> int \<times> u8 list" where
  "crypt_iv_random_gen api cc iv dmreq =
     (0, store_at iv 0 (take (iv_size cc) (get_random_bytes api (iv_size cc))))"

subsection \<open>lmk\<close>

text \<open>
  The seed, IV seed and whitening pointers are dereferenced only after a successful
  constructor has allocated them; \<open>deref\<close> reads such a pointer and gives the empty
  buffer for \<^verbatim>\<open>NULL\<close>, which no generator call meets.
\<close>

definition deref :: "u8 list option \<Rightarrow> u8 list" where
  "deref p = (case p of None \<Rightarrow> [] | Some b \<Rightarrow> b)"

text \<open>
  \<^verbatim>\<open>crypt_iv_lmk_one\<close>: the bytes fed to MD5 are the optional 64-byte seed, blocks 1 to 31
  of the sector and the 16-byte trailer with the sector number; \<open>md5_export\<close> stands for
  init, the updates, the export and the conversion of the state words to little endian,
  and returns the first error of these calls.
\<close>

definition crypt_iv_lmk_one ::
  "crypto_api \<Rightarrow> crypt_config \<Rightarrow> u8 list \<Rightarrow> dm_crypt_request \<Rightarrow> u8 list \<Rightarrow> int \<times> u8 list" where
  "crypt_iv_lmk_one api cc iv dmreq data =
     (let seed = (case lmk_seed cc of None \<Rightarrow> [] | Some s \<Rightarrow> take 64 s);
          buf = cpu_to_le32 (ucast (iv_sector dmreq AND 0xFFFFFFFF))
              @ cpu_to_le32 (ucast ((drop_bit 32 (iv_sector dmreq) AND 0x00FFFFFF) OR 0x80000000))
              @ cpu_to_le32 4024
              @ cpu_to_le32 0;
          (r, st) = md5_export api (seed @ take (16 * 31) (drop 16 data) @ buf)
      in if r \<noteq> 0 then (r, iv) else (0, store_at iv 0 (take (iv_size cc) st)))"

definition crypt_iv_lmk_gen ::
  "crypto_api \<Rightarrow> crypt_config \<Rightarrow> u8 list \<Rightarrow> dm_crypt_request \<Rightarrow> int \<times> u8 list" where
  "crypt_iv_lmk_gen api cc iv dmreq =
     (if dir dmreq = WRITE then crypt_iv_lmk_one api cc iv dmreq (sg_in_data dmreq)
      else (0, memset iv 0 (iv_size cc)))"

definition crypt_iv_lmk_post ::
  "crypto_api \<Rightarrow> crypt_config \<Rightarrow> u8 list \<Rightarrow> dm_crypt_request
     \<Rightarrow> int \<times> u8 list \<times> dm_crypt_request" where
  "crypt_iv_lmk_post api cc iv dmreq =
     (if dir dmreq = WRITE then (0, iv, dmreq)
      else
        (let (r, iv') = crypt_iv_lmk_one api cc iv dmreq (sg_out_data dmreq)
         in if r = 0
            then (r, iv', dmreq\<lparr>sg_out_data :=
                    store_at (sg_out_data dmreq) 0
                      (crypto_xor_cpy (sg_out_data dmreq) iv' (iv_size cc))\<rparr>)
            else (r, iv', dmreq)))"

subsection \<open>tcw\<close>

definition TCW_WHITENING_SIZE :: nat where "TCW_WHITENING_SIZE = 16"

text \<open>The loop over the four 32-bit parts of \<open>buf\<close>, leaving at the first error.\<close>

fun tcw_crc_parts :: "crypto_api \<Rightarrow> u8 list \<Rightarrow> nat list \<Rightarrow> int \<times> u8 list" where
  "tcw_crc_parts api buf [] = (0, buf)"
| "tcw_crc_parts api buf (i # is) =
     (let (r, out) = crc32_final api (take 4 (drop (i * 4) buf))
      in if r \<noteq> 0 then (r, buf)
         else tcw_crc_parts api (store_at buf (i * 4) (take 4 out)) is)"

text \<open>The loop that applies the 8 bytes of whitening to each 8-byte part of the sector.\<close>

fun tcw_apply :: "u8 list \<Rightarrow> u8 list \<Rightarrow> nat list \<Rightarrow> u8 list" where
  "tcw_apply buf data [] = data"
| "tcw_apply buf data (i # is) =
     tcw_apply buf (store_at data (i * 8) (crypto_xor_cpy (drop (i * 8) data) buf 8)) is"

definition crypt_iv_tcw_whitening ::
  "crypto_api \<Rightarrow> crypt_config \<Rightarrow> dm_crypt_request \<Rightarrow> u8 list \<Rightarrow> int \<times> u8 list" where
  "crypt_iv_tcw_whitening api cc dmreq data =
     (let sector = cpu_to_le64 (iv_sector dmreq);
          w = deref (tcw_whitening cc);
          buf0 = crypto_xor_cpy w sector 8 @ crypto_xor_cpy (drop 8 w) sector 8;
          (r, buf1) = tcw_crc_parts api buf0 [0..<4]
      in if r \<noteq> 0 then (r, data)
         else
           (let buf2 = store_at buf1 0 (crypto_xor_cpy buf1 (drop 12 buf1) 4);
                buf3 = store_at buf2 4 (crypto_xor_cpy (drop 4 buf2) (drop 8 buf2) 4)
            in (r, tcw_apply buf3 data [0..<2 ^ SECTOR_SHIFT div 8])))"

text \<open>
  \<^verbatim>\<open>crypt_iv_tcw_gen\<close>. The second \<^verbatim>\<open>crypto_xor_cpy\<close> reads \<^verbatim>\<open>cc->iv_size - 8\<close> bytes of
  the 8-byte variable \<^verbatim>\<open>sector\<close>; the model reads the 8 bytes that exist, so for an IV
  longer than 16 bytes it writes fewer bytes than the source, whose read is then outside
  the variable.
\<close>

definition crypt_iv_tcw_gen ::
  "crypto_api \<Rightarrow> crypt_config \<Rightarrow> u8 list \<Rightarrow> dm_crypt_request
     \<Rightarrow> int \<times> u8 list \<times> dm_crypt_request" where
  "crypt_iv_tcw_gen api cc iv dmreq =
     (let sector = cpu_to_le64 (iv_sector dmreq);
          seed = deref (tcw_iv_seed cc);
          (r, dmreq') =
            (if dir dmreq \<noteq> WRITE
             then (let (r, d) = crypt_iv_tcw_whitening api cc dmreq (sg_in_data dmreq)
                   in (r, dmreq\<lparr>sg_in_data := d\<rparr>))
             else (0, dmreq));
          iv1 = store_at iv 0 (crypto_xor_cpy seed sector 8);
          iv2 = (if iv_size cc > 8
                 then store_at iv1 8 (crypto_xor_cpy (drop 8 seed) sector (iv_size cc - 8))
                 else iv1)
      in (r, iv2, dmreq'))"

definition crypt_iv_tcw_post ::
  "crypto_api \<Rightarrow> crypt_config \<Rightarrow> u8 list \<Rightarrow> dm_crypt_request
     \<Rightarrow> int \<times> u8 list \<times> dm_crypt_request" where
  "crypt_iv_tcw_post api cc iv dmreq =
     (if dir dmreq \<noteq> WRITE then (0, iv, dmreq)
      else (let (r, d) = crypt_iv_tcw_whitening api cc dmreq (sg_out_data dmreq)
            in (r, iv, dmreq\<lparr>sg_out_data := d\<rparr>)))"

subsection \<open>The operation tables\<close>

text \<open>
  \<^verbatim>\<open>cc->iv_gen_ops->generator\<close> and \<^verbatim>\<open>cc->iv_gen_ops->post\<close>: the tables
  \<^verbatim>\<open>crypt_iv_*_ops\<close> as a dispatch on the mode. \<open>has_post\<close> is the test
  \<^verbatim>\<open>cc->iv_gen_ops->post\<close> for a non-null hook.
\<close>

definition generator ::
  "crypto_api \<Rightarrow> iv_mode \<Rightarrow> crypt_config \<Rightarrow> u8 list \<Rightarrow> dm_crypt_request
     \<Rightarrow> int \<times> u8 list \<times> dm_crypt_request" where
  "generator api m cc iv dmreq =
     (case m of
        IV_plain \<Rightarrow> (let (r, v) = crypt_iv_plain_gen cc iv dmreq in (r, v, dmreq))
      | IV_plain64 \<Rightarrow> (let (r, v) = crypt_iv_plain64_gen cc iv dmreq in (r, v, dmreq))
      | IV_plain64be \<Rightarrow> (let (r, v) = crypt_iv_plain64be_gen cc iv dmreq in (r, v, dmreq))
      | IV_essiv \<Rightarrow> (let (r, v) = crypt_iv_essiv_gen api cc iv dmreq in (r, v, dmreq))
      | IV_benbi \<Rightarrow> (let (r, v) = crypt_iv_benbi_gen cc iv dmreq in (r, v, dmreq))
      | IV_null \<Rightarrow> (let (r, v) = crypt_iv_null_gen cc iv dmreq in (r, v, dmreq))
      | IV_lmk \<Rightarrow> (let (r, v) = crypt_iv_lmk_gen api cc iv dmreq in (r, v, dmreq))
      | IV_tcw \<Rightarrow> crypt_iv_tcw_gen api cc iv dmreq
      | IV_random \<Rightarrow> (let (r, v) = crypt_iv_random_gen api cc iv dmreq in (r, v, dmreq)))"

definition has_post :: "iv_mode \<Rightarrow> bool" where
  "has_post m = (m = IV_lmk \<or> m = IV_tcw)"

definition post ::
  "crypto_api \<Rightarrow> iv_mode \<Rightarrow> crypt_config \<Rightarrow> u8 list \<Rightarrow> dm_crypt_request
     \<Rightarrow> int \<times> u8 list \<times> dm_crypt_request" where
  "post api m cc iv dmreq =
     (case m of
        IV_lmk \<Rightarrow> crypt_iv_lmk_post api cc iv dmreq
      | IV_tcw \<Rightarrow> crypt_iv_tcw_post api cc iv dmreq
      | _ \<Rightarrow> (0, iv, dmreq))"

subsection \<open>Reading an IV as a number\<close>


section \<open>Constructors of the lmk and tcw generators\<close>

text \<open>
  The allocator calls a constructor or destructor makes, in order. The outcome of each
  allocation is an argument of the constructor: the pointer \<^verbatim>\<open>crypto_alloc_shash\<close>
  returns and whether each \<^verbatim>\<open>kzalloc\<close> succeeds.
\<close>

datatype alloc_event =
  Crypto_alloc_shash string | Crypto_free_shash | Kzalloc nat | Kzfree

definition LMK_SEED_SIZE :: nat where "LMK_SEED_SIZE = 64"

definition crypt_iv_lmk_dtr :: "crypt_config \<Rightarrow> crypt_config \<times> alloc_event list" where
  "crypt_iv_lmk_dtr cc =
     (let ev1 = (if lmk_hash_tfm cc = TFM_OK then [Crypto_free_shash] else []);
          cc1 = cc\<lparr>lmk_hash_tfm := TFM_NULL\<rparr>;
          ev2 = (if lmk_seed cc1 \<noteq> None then [Kzfree] else []);
          cc2 = cc1\<lparr>lmk_seed := None\<rparr>
      in (cc2, ev1 @ ev2))"

text \<open>
  \<^verbatim>\<open>crypt_iv_lmk_ctr\<close>. The result is the return value, the configuration,
  \<^verbatim>\<open>ti->error\<close> and the allocator calls made.
\<close>

definition crypt_iv_lmk_ctr ::
  "crypt_config \<Rightarrow> tfm_ptr \<Rightarrow> bool
     \<Rightarrow> int \<times> crypt_config \<times> string option \<times> alloc_event list" where
  "crypt_iv_lmk_ctr cc shash seed_ok =
     (if unat (sector_size cc) \<noteq> 2 ^ SECTOR_SHIFT
        then (- EINVAL, cc, Some ''Unsupported sector size for LMK'', [])
      else
        (let cc1 = cc\<lparr>lmk_hash_tfm := shash\<rparr>; ev1 = [Crypto_alloc_shash ''md5'']
         in case shash of
              TFM_ERR e \<Rightarrow> (e, cc1, Some ''Error initializing LMK hash'', ev1)
            | _ \<Rightarrow>
               if key_parts cc1 = tfms_count cc1
                 then (0, cc1\<lparr>lmk_seed := None\<rparr>, None, ev1)
               else if seed_ok
                 then (0, cc1\<lparr>lmk_seed := Some (replicate LMK_SEED_SIZE 0)\<rparr>, None,
                       ev1 @ [Kzalloc LMK_SEED_SIZE])
               else
                 (let (cc2, ev2) = crypt_iv_lmk_dtr (cc1\<lparr>lmk_seed := None\<rparr>)
                  in (- ENOMEM, cc2, Some ''Error kmallocing seed storage in LMK'',
                      ev1 @ [Kzalloc LMK_SEED_SIZE] @ ev2))))"

definition crypt_iv_tcw_dtr :: "crypt_config \<Rightarrow> crypt_config \<times> alloc_event list" where
  "crypt_iv_tcw_dtr cc =
     (let ev1 = (if tcw_iv_seed cc \<noteq> None then [Kzfree] else []);
          cc1 = cc\<lparr>tcw_iv_seed := None\<rparr>;
          ev2 = (if tcw_whitening cc1 \<noteq> None then [Kzfree] else []);
          cc2 = cc1\<lparr>tcw_whitening := None\<rparr>;
          ev3 = (if tcw_crc32_tfm cc2 = TFM_OK then [Crypto_free_shash] else []);
          cc3 = cc2\<lparr>tcw_crc32_tfm := TFM_NULL\<rparr>
      in (cc3, ev1 @ ev2 @ ev3))"

definition crypt_iv_tcw_ctr ::
  "crypt_config \<Rightarrow> tfm_ptr \<Rightarrow> bool \<Rightarrow> bool
     \<Rightarrow> int \<times> crypt_config \<times> string option \<times> alloc_event list" where
  "crypt_iv_tcw_ctr cc shash iv_seed_ok whitening_ok =
     (if unat (sector_size cc) \<noteq> 2 ^ SECTOR_SHIFT
        then (- EINVAL, cc, Some ''Unsupported sector size for TCW'', [])
      else if key_size cc \<le> iv_size cc + TCW_WHITENING_SIZE
        then (- EINVAL, cc, Some ''Wrong key size for TCW'', [])
      else
        (let cc1 = cc\<lparr>tcw_crc32_tfm := shash\<rparr>; ev1 = [Crypto_alloc_shash ''crc32'']
         in case shash of
              TFM_ERR e \<Rightarrow> (e, cc1, Some ''Error initializing CRC32 in TCW'', ev1)
            | _ \<Rightarrow>
               (let cc2 = cc1\<lparr>tcw_iv_seed :=
                              (if iv_seed_ok then Some (replicate (iv_size cc1) 0) else None),
                            tcw_whitening :=
                              (if whitening_ok then Some (replicate TCW_WHITENING_SIZE 0)
                               else None)\<rparr>;
                    ev2 = ev1 @ [Kzalloc (iv_size cc1), Kzalloc TCW_WHITENING_SIZE]
                in if tcw_iv_seed cc2 = None \<or> tcw_whitening cc2 = None
                   then (let (cc3, ev3) = crypt_iv_tcw_dtr cc2
                         in (- ENOMEM, cc3, Some ''Error allocating seed storage in TCW'',
                             ev2 @ ev3))
                   else (0, cc2, None, ev2))))"

section \<open>Block layer, conversion context and I/O record\<close>

text \<open>
  \<^verbatim>\<open>struct bvec_iter\<close> and the part of \<^verbatim>\<open>struct bio\<close> the driver reads and writes. The
  operation and the \<^verbatim>\<open>REQ_PREFLUSH\<close> bit of \<^verbatim>\<open>bi_opf\<close> are separate fields;
  \<open>bi_bdev\<close> names the device the bio is directed to.
\<close>

datatype req_op = REQ_OP_READ | REQ_OP_WRITE | REQ_OP_FLUSH | REQ_OP_DISCARD

datatype blk_status_t = BLK_STS_OK | BLK_STS_IOERR | BLK_STS_PROTECTION | BLK_STS_RESOURCE

record bvec_iter =
  bi_sector :: sector_t
  bi_size :: u32
  bi_idx :: u32
  bi_bvec_done :: u32

record bio =
  bi_bdev :: nat
  bi_op :: req_op
  bi_preflush :: bool
  bi_iter :: bvec_iter
  bi_status :: blk_status_t

record dm_target =
  ti_begin :: sector_t
  ti_len :: sector_t

text \<open>
  Modelled from the spec: \<^verbatim>\<open>bio_data_dir\<close> and \<^verbatim>\<open>bio_sectors\<close> are block-layer macros
  declared outside the file. A request has a direction (read or write; a discard counts
  as a write) and a length in bytes, which \<^verbatim>\<open>bio_sectors\<close> gives in 512-byte units.
\<close>

definition bio_data_dir :: "bio \<Rightarrow> data_dir" where
  "bio_data_dir b =
     (case bi_op b of REQ_OP_READ \<Rightarrow> READ | REQ_OP_FLUSH \<Rightarrow> READ
      | REQ_OP_WRITE \<Rightarrow> WRITE | REQ_OP_DISCARD \<Rightarrow> WRITE)"

definition bio_sectors :: "bio \<Rightarrow> u32" where
  "bio_sectors b = drop_bit SECTOR_SHIFT (bi_size (bi_iter b))"

text \<open>
  The remaining helpers and constants of the block layer and of device-mapper that the
  driver uses are parameters: the length of the segment under a cursor
  (\<^verbatim>\<open>bio_iter_iovec(bio, iter).bv_len\<close>), \<^verbatim>\<open>bio_advance_iter\<close> (both receive the bio
  pointer, \<open>None\<close> for \<^verbatim>\<open>NULL\<close>), \<^verbatim>\<open>dm_target_offset\<close>, and the constants \<^verbatim>\<open>BIO_MAX_PAGES\<close>, \<^verbatim>\<open>PAGE_SHIFT\<close> and \<^verbatim>\<open>KMALLOC_MAX_SIZE\<close>.
\<close>

record blk_layer =
  bio_iter_iovec_len :: "bio option \<Rightarrow> bvec_iter \<Rightarrow> u32"
  bio_advance_iter :: "bio option \<Rightarrow> bvec_iter \<Rightarrow> u32 \<Rightarrow> bvec_iter"
  dm_target_offset :: "dm_target \<Rightarrow> sector_t \<Rightarrow> sector_t"
  BIO_MAX_PAGES :: nat
  PAGE_SHIFT :: nat
  KMALLOC_MAX_SIZE :: nat

text \<open>
  \<^verbatim>\<open>struct convert_context\<close>. The request pointer \<open>r_req\<close> is \<open>None\<close> for \<^verbatim>\<open>NULL\<close>,
  \<open>Some 0\<close> for the request stored behind the I/O record (\<^verbatim>\<open>io + 1\<close>) and \<open>Some n\<close> for
  the \<open>n\<close>-th request taken from the pool; \<open>restart\<close> is the count of the completion.
\<close>

record convert_context =
  restart :: nat
  bio_in :: "bio option"
  bio_out :: "bio option"
  iter_in :: bvec_iter
  iter_out :: bvec_iter
  cc_sector :: sector_t
  cc_pending :: int
  r_req :: "nat option"

text \<open>
  \<^verbatim>\<open>struct dm_crypt_io\<close>; the fields \<^verbatim>\<open>base_bio\<close>, \<^verbatim>\<open>ctx\<close>, \<^verbatim>\<open>error\<close> and \<^verbatim>\<open>sector\<close>
  carry the prefix \<open>io_\<close>. The integrity buffer is \<open>None\<close> for \<^verbatim>\<open>NULL\<close> or its length.
\<close>

record dm_crypt_io =
  io_base_bio :: bio
  integrity_metadata :: "nat option"
  integrity_metadata_from_pool :: bool
  io_ctx :: convert_context
  io_pending :: int
  io_error :: blk_status_t
  io_sector :: sector_t

section \<open>Mapping a request: \<^verbatim>\<open>crypt_map\<close>\<close>

datatype map_result = DM_MAPIO_SUBMITTED | DM_MAPIO_REMAPPED | DM_MAPIO_KILL

text \<open>
  What \<^verbatim>\<open>crypt_map\<close> does besides returning: the calls that create or hand over state, in
  order.
\<close>

datatype map_action =
  Accept_partial nat
  | Crypt_io_init
  | Kmalloc_tags nat
  | Mempool_alloc_tags
  | Bio_clone_fast
  | Bio_integrity_alloc
  | Bio_put
  | Generic_make_request bio
  | Queue_read
  | Queue_crypt

text \<open>
  The answers of the allocators during one call: whether \<^verbatim>\<open>kmalloc\<close> of the tag buffer
  and \<^verbatim>\<open>bio_clone_fast\<close> succeed, and the return value of the integrity payload set-up.
\<close>

record map_env =
  kmalloc_ok :: bool
  clone_ok :: bool
  integrity_ret :: int

text \<open>
  Modelled from the spec: \<^verbatim>\<open>dm_accept_partial_bio\<close> belongs to device-mapper core. The spec
  says that the external layer is told to split the request into a smaller accepted
  portion plus a remainder: the bio keeps the first \<open>n\<close> sectors.
\<close>

definition dm_accept_partial_bio :: "bio \<Rightarrow> nat \<Rightarrow> bio" where
  "dm_accept_partial_bio b n =
     b\<lparr>bi_iter := (bi_iter b)\<lparr>bi_size := push_bit SECTOR_SHIFT (of_nat n)\<rparr>\<rparr>"

definition crypt_inc_pending :: "dm_crypt_io \<Rightarrow> dm_crypt_io" where
  "crypt_inc_pending io = io\<lparr>io_pending := io_pending io + 1\<rparr>"

definition crypt_io_init :: "bio \<Rightarrow> sector_t \<Rightarrow> dm_crypt_io" where
  "crypt_io_init b s =
     \<lparr> io_base_bio = b, integrity_metadata = None, integrity_metadata_from_pool = False,
       io_ctx = \<lparr> restart = 0, bio_in = None, bio_out = None,
                  iter_in = \<lparr>bi_sector = 0, bi_size = 0, bi_idx = 0, bi_bvec_done = 0\<rparr>,
                  iter_out = \<lparr>bi_sector = 0, bi_size = 0, bi_idx = 0, bi_bvec_done = 0\<rparr>,
                  cc_sector = 0, cc_pending = 0, r_req = None \<rparr>,
       io_pending = 0, io_error = BLK_STS_OK, io_sector = s \<rparr>"

definition dm_crypt_integrity_io_alloc :: "map_env \<Rightarrow> crypt_config \<Rightarrow> bio \<Rightarrow> int" where
  "dm_crypt_integrity_io_alloc env cc b =
     (if bio_sectors b = 0 \<or> on_disk_tag_size cc = 0 then 0 else integrity_ret env)"

text \<open>
  \<^verbatim>\<open>kcryptd_io_read\<close>: the return value, the I/O record and the calls made. When the
  integrity set-up fails, \<^verbatim>\<open>crypt_dec_pending\<close> undoes the increment; the record cannot
  reach zero there, since \<^verbatim>\<open>crypt_map\<close> has not yet returned.
\<close>

definition kcryptd_io_read ::
  "map_env \<Rightarrow> crypt_config \<Rightarrow> dm_crypt_io \<Rightarrow> int \<times> dm_crypt_io \<times> map_action list" where
  "kcryptd_io_read env cc io =
     (if \<not> clone_ok env then (1, io, [Bio_clone_fast])
      else
        (let io1 = crypt_inc_pending io;
             clone = (io_base_bio io)\<lparr>bi_bdev := dev cc\<rparr>;
             clone1 = clone\<lparr>bi_iter := (bi_iter clone)\<lparr>bi_sector := start cc + io_sector io1\<rparr>\<rparr>
         in if dm_crypt_integrity_io_alloc env cc clone1 \<noteq> 0
            then (1, io1\<lparr>io_pending := io_pending io1 - 1\<rparr>,
                  [Bio_clone_fast, Bio_integrity_alloc, Bio_put])
            else (0, io1, [Bio_clone_fast, Bio_integrity_alloc, Generic_make_request clone1])))"

text \<open>
  The step of \<^verbatim>\<open>crypt_map\<close> that splits a request which is too large: the bio after the
  step and the call made.
\<close>

definition crypt_map_split :: "blk_layer \<Rightarrow> crypt_config \<Rightarrow> bio \<Rightarrow> bio \<times> map_action list" where
  "crypt_map_split blk cc b =
     (let max_bytes = push_bit (PAGE_SHIFT blk) (BIO_MAX_PAGES blk)
      in if unat (bi_size (bi_iter b)) > max_bytes
            \<and> (bio_data_dir b = WRITE \<or> on_disk_tag_size cc \<noteq> 0)
         then (dm_accept_partial_bio b (drop_bit SECTOR_SHIFT max_bytes),
               [Accept_partial (drop_bit SECTOR_SHIFT max_bytes)])
         else (b, []))"

text \<open>
  The steps of \<^verbatim>\<open>crypt_map\<close> after the alignment checks. First the buffer for the
  integrity tags: \<^verbatim>\<open>kmalloc\<close>, or the pool when the length is above
  \<^verbatim>\<open>KMALLOC_MAX_SIZE\<close> or \<^verbatim>\<open>kmalloc\<close> fails, accepting fewer sectors if needed.
\<close>

definition crypt_map_pool_tags ::
  "crypt_config \<Rightarrow> bio \<Rightarrow> dm_crypt_io \<Rightarrow> nat \<Rightarrow> bio \<times> dm_crypt_io \<times> map_action list" where
  "crypt_map_pool_tags cc b io tag_len =
     (let (b', a') =
            (if unat (bio_sectors b) > tag_pool_max_sectors cc
             then (dm_accept_partial_bio b (tag_pool_max_sectors cc),
                   [Accept_partial (tag_pool_max_sectors cc)])
             else (b, []))
      in (b', io\<lparr>integrity_metadata := Some tag_len, integrity_metadata_from_pool := True\<rparr>,
          a' @ [Mempool_alloc_tags]))"

definition crypt_map_tags ::
  "blk_layer \<Rightarrow> map_env \<Rightarrow> crypt_config \<Rightarrow> bio \<Rightarrow> dm_crypt_io
     \<Rightarrow> bio \<times> dm_crypt_io \<times> map_action list" where
  "crypt_map_tags blk env cc b io =
     (if on_disk_tag_size cc \<noteq> 0 then
        (let tag_len = (on_disk_tag_size cc
                          * unat (drop_bit (sector_shift cc) (bio_sectors b))) mod 2 ^ 32
         in if tag_len > KMALLOC_MAX_SIZE blk
              then crypt_map_pool_tags cc b io tag_len
            else if \<not> kmalloc_ok env
              then (let (b', io', a') = crypt_map_pool_tags cc b io tag_len
                    in (b', io', Kmalloc_tags tag_len # a'))
            else (b, io\<lparr>integrity_metadata := Some tag_len\<rparr>, [Kmalloc_tags tag_len]))
      else (b, io, []))"

text \<open>Then the request behind the record, and the hand-over to the read or crypt path.\<close>

definition crypt_map_submit ::
  "map_env \<Rightarrow> crypt_config \<Rightarrow> dm_crypt_io \<Rightarrow> dm_crypt_io \<times> map_action list" where
  "crypt_map_submit env cc io =
     (let io1 = (if CRYPT_MODE_INTEGRITY_AEAD \<in> cipher_flags cc
                    \<or> CRYPT_MODE_SKCIPHER \<in> cipher_flags cc
                 then io\<lparr>io_ctx := (io_ctx io)\<lparr>r_req := Some 0\<rparr>\<rparr>
                 else io)
      in if bio_data_dir (io_base_bio io1) = READ \<or> CRYPT_MODE_DISKCIPHER \<in> cipher_flags cc
         then (let (r, io2, a) = kcryptd_io_read env cc io1
               in if r \<noteq> 0 then (io2, a @ [Queue_read]) else (io2, a))
         else (io1, [Queue_crypt]))"

text \<open>
  \<^verbatim>\<open>crypt_map\<close>: the disposition returned to device-mapper, the bio as the function leaves
  it, the I/O tracking record if one was initialised, and the calls made.
\<close>

definition crypt_map ::
  "blk_layer \<Rightarrow> map_env \<Rightarrow> dm_target \<Rightarrow> crypt_config \<Rightarrow> bio
     \<Rightarrow> map_result \<times> bio \<times> dm_crypt_io option \<times> map_action list" where
  "crypt_map blk env ti cc b =
     (if bi_preflush b \<or> bi_op b = REQ_OP_DISCARD then
        (let b1 = b\<lparr>bi_bdev := dev cc\<rparr>;
             b2 = (if bio_sectors b1 \<noteq> 0
                   then b1\<lparr>bi_iter := (bi_iter b1)\<lparr>bi_sector :=
                          start cc + dm_target_offset blk ti (bi_sector (bi_iter b1))\<rparr>\<rparr>
                   else b1)
         in (DM_MAPIO_REMAPPED, b2, None, []))
      else
        (let (b1, a1) = crypt_map_split blk cc b
         in if bi_sector (bi_iter b1)
                 AND (ucast (drop_bit SECTOR_SHIFT (sector_size cc)) - 1) \<noteq> 0
              then (DM_MAPIO_KILL, b1, None, a1)
            else if bi_size (bi_iter b1) AND (ucast (sector_size cc) - 1) \<noteq> 0
              then (DM_MAPIO_KILL, b1, None, a1)
            else
              (let io0 = crypt_io_init b1 (dm_target_offset blk ti (bi_sector (bi_iter b1)));
                   (b2, io1, a2) = crypt_map_tags blk env cc b1 io0;
                   (io2, a3) = crypt_map_submit env cc (io1\<lparr>io_base_bio := b2\<rparr>)
               in (DM_MAPIO_SUBMITTED, b2, Some io2, a1 @ [Crypt_io_init] @ a2 @ a3))))"

section \<open>Write reordering: \<^verbatim>\<open>kcryptd_crypt_write_io_submit\<close> and \<^verbatim>\<open>dmcrypt_write\<close>\<close>





definition set_clone_sector :: "crypt_config \<Rightarrow> dm_crypt_io \<Rightarrow> dm_crypt_io" where
  "set_clone_sector cc io =
     io\<lparr>io_ctx := (io_ctx io)\<lparr>bio_out :=
          map_option (\<lambda>clone. clone\<lparr>bi_iter := (bi_iter clone)\<lparr>bi_sector :=
                         start cc + io_sector io\<rparr>\<rparr>)
            (bio_out (io_ctx io))\<rparr>\<rparr>"






section \<open>The cipher request builder\<close>

text \<open>
  What the surroundings answer during one call of the builder: the previous contents of
  the request's original-IV buffer, the IV stored with the integrity tag, the bytes of
  the sector under the input cursor, the bytes under the output cursor once the cipher
  has run, and the return value of the cipher call
  (\<^verbatim>\<open>crypto_skcipher_encrypt/decrypt\<close> or \<^verbatim>\<open>crypto_aead_encrypt/decrypt\<close>).
\<close>

record req_env =
  org_iv_buf :: "u8 list"
  tag_iv_buf :: "u8 list"
  data_in :: "u8 list"
  data_out :: "u8 list"
  crypt_ret :: int

text \<open>
  The direction of \<^verbatim>\<open>ctx->bio_in\<close>. Both callers of \<^verbatim>\<open>crypt_convert_init\<close> pass the
  original bio as \<^verbatim>\<open>bio_in\<close>, so the pointer is never \<^verbatim>\<open>NULL\<close> where it is read.
\<close>

definition ctx_dir :: "convert_context \<Rightarrow> data_dir" where
  "ctx_dir ctx = (case bio_in ctx of None \<Rightarrow> READ | Some b \<Rightarrow> bio_data_dir b)"

definition dmreq_of :: "crypt_config \<Rightarrow> convert_context \<Rightarrow> req_env \<Rightarrow> dm_crypt_request" where
  "dmreq_of cc ctx e =
     \<lparr> iv_sector = (if CRYPT_IV_LARGE_SECTORS \<in> cipher_flags cc
                     then drop_bit (sector_shift cc) (cc_sector ctx) else cc_sector ctx),
       dir = ctx_dir ctx, sg_in_data = data_in e, sg_out_data = data_out e \<rparr>"

text \<open>
  The first half of \<^verbatim>\<open>crypt_convert_block_skcipher\<close>, up to the working copy of the IV:
  \<open>Inl r\<close> when the function returns \<open>r\<close> from there (the unaligned segment, a failing
  generator), \<open>Inr\<close> with the original IV and the request otherwise.
\<close>

definition skcipher_setup ::
  "blk_layer \<Rightarrow> crypto_api \<Rightarrow> crypt_config \<Rightarrow> convert_context \<Rightarrow> req_env
     \<Rightarrow> int + (u8 list \<times> dm_crypt_request)" where
  "skcipher_setup blk api cc ctx e =
     (if bio_iter_iovec_len blk (bio_in ctx) (iter_in ctx) AND (ucast (sector_size cc) - 1) \<noteq> 0
        then Inl (- EIO)
      else
        (let dmreq = dmreq_of cc ctx e in
         case iv_gen_ops cc of
           None \<Rightarrow> Inr (org_iv_buf e, dmreq)
         | Some m \<Rightarrow>
             if integrity_iv_size cc \<noteq> 0 \<and> ctx_dir ctx \<noteq> WRITE
               then Inr (store_at (org_iv_buf e) 0 (take (integrity_iv_size cc) (tag_iv_buf e)),
                         dmreq)
             else
               (let (r, org_iv, dmreq') = generator api m cc (org_iv_buf e) dmreq
                in if r < 0 then Inl r else Inr (org_iv, dmreq'))))"

text \<open>
  \<^verbatim>\<open>crypt_convert_block_skcipher\<close>: the return value and the conversion context. After the
  set-up the cipher runs, then the post hook if the cipher returned 0, then both cursors
  are advanced by \<^verbatim>\<open>cc->sector_size\<close>.
\<close>

definition crypt_convert_block_skcipher ::
  "blk_layer \<Rightarrow> crypto_api \<Rightarrow> crypt_config \<Rightarrow> convert_context \<Rightarrow> req_env \<Rightarrow> u32
     \<Rightarrow> int \<times> convert_context" where
  "crypt_convert_block_skcipher blk api cc ctx e tag_offset =
     (case skcipher_setup blk api cc ctx e of
        Inl r \<Rightarrow> (r, ctx)
      | Inr (org_iv, dmreq) \<Rightarrow>
          (let r = crypt_ret e;
               r' = (if r = 0 \<and> (case iv_gen_ops cc of None \<Rightarrow> False | Some m \<Rightarrow> has_post m)
                     then (case iv_gen_ops cc of
                             None \<Rightarrow> r
                           | Some m \<Rightarrow> fst (post api m cc org_iv dmreq))
                     else r);
               ctx1 = ctx\<lparr>iter_in := bio_advance_iter blk (bio_in ctx) (iter_in ctx)
                                       (ucast (sector_size cc))\<rparr>;
               ctx2 = ctx1\<lparr>iter_out := bio_advance_iter blk (bio_out ctx1) (iter_out ctx1)
                                         (ucast (sector_size cc))\<rparr>
           in (r', ctx2)))"

text \<open>
  The same for \<^verbatim>\<open>crypt_convert_block_aead\<close>. The set-up copies \<^verbatim>\<open>cc->iv_size\<close> bytes of
  the stored IV. The result is \<open>None\<close> when the \<^verbatim>\<open>BUG_ON\<close> at the head of the function
  fires: the call does not return then.
\<close>

definition aead_setup ::
  "blk_layer \<Rightarrow> crypto_api \<Rightarrow> crypt_config \<Rightarrow> convert_context \<Rightarrow> req_env
     \<Rightarrow> int + (u8 list \<times> dm_crypt_request)" where
  "aead_setup blk api cc ctx e =
     (if bio_iter_iovec_len blk (bio_in ctx) (iter_in ctx) AND (ucast (sector_size cc) - 1) \<noteq> 0
        then Inl (- EIO)
      else
        (let dmreq = dmreq_of cc ctx e in
         case iv_gen_ops cc of
           None \<Rightarrow> Inr (org_iv_buf e, dmreq)
         | Some m \<Rightarrow>
             if integrity_iv_size cc \<noteq> 0 \<and> ctx_dir ctx \<noteq> WRITE
               then Inr (store_at (org_iv_buf e) 0 (take (iv_size cc) (tag_iv_buf e)), dmreq)
             else
               (let (r, org_iv, dmreq') = generator api m cc (org_iv_buf e) dmreq
                in if r < 0 then Inl r else Inr (org_iv, dmreq'))))"

definition crypt_convert_block_aead ::
  "blk_layer \<Rightarrow> crypto_api \<Rightarrow> crypt_config \<Rightarrow> convert_context \<Rightarrow> req_env \<Rightarrow> u32
     \<Rightarrow> (int \<times> convert_context) option" where
  "crypt_convert_block_aead blk api cc ctx e tag_offset =
     (if integrity_iv_size cc \<noteq> 0 \<and> integrity_iv_size cc \<noteq> iv_size cc then None
      else
        (case aead_setup blk api cc ctx e of
           Inl r \<Rightarrow> Some (r, ctx)
         | Inr (org_iv, dmreq) \<Rightarrow>
             (let r = crypt_ret e;
                  r' = (if r = 0 \<and> (case iv_gen_ops cc of None \<Rightarrow> False | Some m \<Rightarrow> has_post m)
                        then (case iv_gen_ops cc of
                                None \<Rightarrow> r
                              | Some m \<Rightarrow> fst (post api m cc org_iv dmreq))
                        else r);
                  ctx1 = ctx\<lparr>iter_in := bio_advance_iter blk (bio_in ctx) (iter_in ctx)
                                          (ucast (sector_size cc))\<rparr>;
                  ctx2 = ctx1\<lparr>iter_out := bio_advance_iter blk (bio_out ctx1) (iter_out ctx1)
                                            (ucast (sector_size cc))\<rparr>
              in Some (r', ctx2))))"

text \<open>The call \<^verbatim>\<open>crypt_convert\<close> makes, by the mode of the cipher.\<close>

definition crypt_convert_block ::
  "blk_layer \<Rightarrow> crypto_api \<Rightarrow> crypt_config \<Rightarrow> convert_context \<Rightarrow> req_env \<Rightarrow> u32
     \<Rightarrow> (int \<times> convert_context) option" where
  "crypt_convert_block blk api cc ctx e tag_offset =
     (if CRYPT_MODE_INTEGRITY_AEAD \<in> cipher_flags cc
      then crypt_convert_block_aead blk api cc ctx e tag_offset
      else Some (crypt_convert_block_skcipher blk api cc ctx e tag_offset))"

section \<open>The conversion loop: \<^verbatim>\<open>crypt_convert\<close>\<close>

text \<open>
  One submission as the loop makes it: the request used and the values of the sector
  cursor, the tag offset and the data cursors at the call of the builder.
\<close>

record submission =
  sub_req :: "nat option"
  sub_sector :: sector_t
  sub_tag_offset :: u32
  sub_iter_in :: bvec_iter
  sub_iter_out :: bvec_iter

datatype conv_event =
  Ev_mempool_alloc nat
  | Ev_submit submission int
  | Ev_wait_restart
  | Ev_cond_resched

text \<open>
  The state of the loop: the conversion context, the local \<^verbatim>\<open>tag_offset\<close>, the number of
  the next request the pool hands out, and what has happened so far (each submission
  with the value the builder returned).
\<close>

record conv_st =
  st_ctx :: convert_context
  st_tag_offset :: u32
  st_next_req :: nat
  st_trace :: "conv_event list"

definition sector_step :: "crypt_config \<Rightarrow> sector_t" where
  "sector_step cc = ucast (drop_bit SECTOR_SHIFT (sector_size cc))"

definition data_remains :: "conv_st \<Rightarrow> bool" where
  "data_remains st =
     (bi_size (iter_in (st_ctx st)) \<noteq> 0 \<and> bi_size (iter_out (st_ctx st)) \<noteq> 0)"

text \<open>\<^verbatim>\<open>crypt_alloc_req\<close>: a request is taken from the pool only when the pointer is null.\<close>

definition crypt_alloc_req :: "conv_st \<Rightarrow> conv_st" where
  "crypt_alloc_req st =
     (if r_req (st_ctx st) = None
      then st\<lparr>st_ctx := (st_ctx st)\<lparr>r_req := Some (st_next_req st)\<rparr>,
              st_next_req := Suc (st_next_req st),
              st_trace := st_trace st @ [Ev_mempool_alloc (st_next_req st)]\<rparr>
      else st)"

text \<open>
  The head of the loop body: \<^verbatim>\<open>crypt_alloc_req\<close>, \<^verbatim>\<open>atomic_inc(&ctx->cc_pending)\<close> and
  the call of the builder. The result is the value \<open>r\<close> the \<^verbatim>\<open>switch\<close> looks at, and the
  state; \<open>None\<close> when the builder does not return.
\<close>

definition crypt_convert_submit ::
  "blk_layer \<Rightarrow> crypto_api \<Rightarrow> crypt_config \<Rightarrow> req_env \<Rightarrow> conv_st \<Rightarrow> (int \<times> conv_st) option" where
  "crypt_convert_submit blk api cc e st =
     (let st1 = crypt_alloc_req st;
          ctx1 = (st_ctx st1)\<lparr>cc_pending := cc_pending (st_ctx st1) + 1\<rparr>
      in case crypt_convert_block blk api cc ctx1 e (st_tag_offset st1) of
           None \<Rightarrow> None
         | Some (r, ctx2) \<Rightarrow>
             Some (r, st1\<lparr>st_ctx := ctx2,
                         st_trace := st_trace st1
                           @ [Ev_submit \<lparr> sub_req = r_req ctx1, sub_sector = cc_sector ctx1,
                                          sub_tag_offset = st_tag_offset st1,
                                          sub_iter_in = iter_in ctx1,
                                          sub_iter_out = iter_out ctx1 \<rparr> r]\<rparr>))"

text \<open>
  The arms of the \<^verbatim>\<open>switch\<close>. \<open>conv_waited\<close> is \<^verbatim>\<open>wait_for_completion\<close> followed by
  \<^verbatim>\<open>reinit_completion\<close>; \<open>conv_queued\<close> is the arm of \<^verbatim>\<open>-EINPROGRESS\<close>, into which the
  arm of \<^verbatim>\<open>-EBUSY\<close> falls; \<open>conv_sync\<close> is the arm of 0; \<open>conv_dec\<close> is the
  \<^verbatim>\<open>atomic_dec\<close> of the two failing arms.
\<close>

definition conv_waited :: "conv_st \<Rightarrow> conv_st" where
  "conv_waited st =
     st\<lparr>st_ctx := (st_ctx st)\<lparr>restart := 0\<rparr>, st_trace := st_trace st @ [Ev_wait_restart]\<rparr>"

definition conv_queued :: "crypt_config \<Rightarrow> conv_st \<Rightarrow> conv_st" where
  "conv_queued cc st =
     st\<lparr>st_ctx := (st_ctx st)\<lparr>r_req := None,
                                cc_sector := cc_sector (st_ctx st) + sector_step cc\<rparr>,
        st_tag_offset := st_tag_offset st + 1\<rparr>"

definition conv_dec :: "conv_st \<Rightarrow> conv_st" where
  "conv_dec st = st\<lparr>st_ctx := (st_ctx st)\<lparr>cc_pending := cc_pending (st_ctx st) - 1\<rparr>\<rparr>"

definition conv_sync :: "crypt_config \<Rightarrow> conv_st \<Rightarrow> conv_st" where
  "conv_sync cc st =
     (let st1 = conv_dec st
      in st1\<lparr>st_ctx := (st_ctx st1)\<lparr>cc_sector := cc_sector (st_ctx st1) + sector_step cc\<rparr>,
             st_tag_offset := st_tag_offset st1 + 1,
             st_trace := st_trace st1 @ [Ev_cond_resched]\<rparr>)"

datatype loop_next = Next_iteration conv_st | Leave blk_status_t conv_st

definition crypt_convert_switch :: "crypt_config \<Rightarrow> int \<Rightarrow> conv_st \<Rightarrow> loop_next" where
  "crypt_convert_switch cc r st =
     (if r = - EBUSY then Next_iteration (conv_queued cc (conv_waited st))
      else if r = - EINPROGRESS then Next_iteration (conv_queued cc st)
      else if r = 0 then Next_iteration (conv_sync cc st)
      else if r = - EBADMSG then Leave BLK_STS_PROTECTION (conv_dec st)
      else Leave BLK_STS_IOERR (conv_dec st))"

text \<open>
  The \<^verbatim>\<open>while\<close> loop. Each iteration takes the next answer of the surroundings; the
  result is \<open>None\<close> when the builder does not return or the answers run out while data
  remains.
\<close>

fun crypt_convert_loop ::
  "blk_layer \<Rightarrow> crypto_api \<Rightarrow> crypt_config \<Rightarrow> conv_st \<Rightarrow> req_env list
     \<Rightarrow> (blk_status_t \<times> conv_st) option" where
  "crypt_convert_loop blk api cc st [] =
     (if data_remains st then None else Some (BLK_STS_OK, st))"
| "crypt_convert_loop blk api cc st (e # es) =
     (if \<not> data_remains st then Some (BLK_STS_OK, st)
      else
        (case crypt_convert_submit blk api cc e st of
           None \<Rightarrow> None
         | Some (r, st') \<Rightarrow>
             (case crypt_convert_switch cc r st' of
                Next_iteration st'' \<Rightarrow> crypt_convert_loop blk api cc st'' es
              | Leave status st'' \<Rightarrow> Some (status, st''))))"

definition crypt_convert ::
  "blk_layer \<Rightarrow> crypto_api \<Rightarrow> crypt_config \<Rightarrow> convert_context \<Rightarrow> nat \<Rightarrow> req_env list
     \<Rightarrow> (blk_status_t \<times> conv_st) option" where
  "crypt_convert blk api cc ctx next_req es =
     crypt_convert_loop blk api cc
       \<lparr> st_ctx = ctx\<lparr>cc_pending := 1\<rparr>, st_tag_offset = 0, st_next_req = next_req,
         st_trace = [] \<rparr> es"

text \<open>The submissions of a trace, in order, each with the builder's return value.\<close>

fun submissions :: "conv_event list \<Rightarrow> (submission \<times> int) list" where
  "submissions [] = []"
| "submissions (Ev_submit s r # evs) = (s, r) # submissions evs"
| "submissions (_ # evs) = submissions evs"

section \<open>Example configurations\<close>

text \<open>
  A configuration as the constructor leaves it for a cipher with a 16-byte IV on
  512-byte sectors, with a valid 32-byte key; the examples below vary single fields.
\<close>

definition cc_example :: crypt_config where
  "cc_example =
     \<lparr> dev = 1, start = 0, iv_gen_ops = Some IV_plain, benbi_shift = 0,
       lmk_hash_tfm = TFM_NULL, lmk_seed = None,
       tcw_crc32_tfm = TFM_NULL, tcw_iv_seed = None, tcw_whitening = None,
       iv_offset = 0, iv_size = 16, sector_size = 512, sector_shift = 0,
       tfms_count = 1, cipher_flags = {CRYPT_MODE_SKCIPHER}, flags = {DM_CRYPT_KEY_VALID},
       key_size = 32, key_parts = 1, key_extra_size = 0, key_mac_size = 0,
       integrity_tag_size = 0, integrity_iv_size = 0, on_disk_tag_size = 0,
       tag_pool_max_sectors = 0, key_string = None, key = replicate 32 0 \<rparr>"

definition cc_4k :: crypt_config where
  "cc_4k = cc_example\<lparr>sector_size := 4096, sector_shift := 3\<rparr>"


text \<open>
  A stand-in for the crypto API in the examples: the block cipher is the identity, the
  hashes return their input without error, the random pool returns zero bytes.
\<close>

definition api_example :: crypto_api where
  "api_example =
     \<lparr> cipher_encrypt_one = (\<lambda>b. b),
       md5_export = (\<lambda>b. (0, take 16 b)),
       crc32_final = (\<lambda>b. (0, take 4 b)),
       get_random_bytes = (\<lambda>n. replicate n 0) \<rparr>"

text \<open>
  Modelled from the spec: a stand-in for the block-layer helpers on a request that is one
  contiguous segment. The cursor's segment is all that remains; advancing by \<open>n\<close> bytes
  moves the position \<open>n\<close> bytes forward and leaves \<open>n\<close> fewer; \<^verbatim>\<open>dm_target_offset\<close> is the
  sector relative to the start of the target. The constants are those of a machine with
  4 KiB pages.
\<close>

definition blk_example :: blk_layer where
  "blk_example =
     \<lparr> bio_iter_iovec_len = (\<lambda>b it. bi_size it),
       bio_advance_iter = (\<lambda>b it n. it\<lparr>bi_sector := bi_sector it + drop_bit 9 (ucast n),
                                       bi_size := bi_size it - n\<rparr>),
       dm_target_offset = (\<lambda>ti s. s - ti_begin ti),
       BIO_MAX_PAGES = 256, PAGE_SHIFT = 12, KMALLOC_MAX_SIZE = 4194304 \<rparr>"

definition env_example :: map_env where
  "env_example = \<lparr> kmalloc_ok = True, clone_ok = True, integrity_ret = 0 \<rparr>"

definition ti_example :: dm_target where
  "ti_example = \<lparr> ti_begin = 0, ti_len = 2097152 \<rparr>"

definition bio_example :: "req_op \<Rightarrow> sector_t \<Rightarrow> u32 \<Rightarrow> bio" where
  "bio_example op s n =
     \<lparr> bi_bdev = 0, bi_op = op, bi_preflush = False,
       bi_iter = \<lparr>bi_sector = s, bi_size = n, bi_idx = 0, bi_bvec_done = 0\<rparr>,
       bi_status = BLK_STS_OK \<rparr>"



text \<open>
  A conversion context as \<^verbatim>\<open>crypt_convert_init\<close> leaves it for a request of \<open>n\<close> bytes
  at sector \<open>s\<close> converted in place, and an answer of the surroundings in which the
  cipher returns \<open>r\<close>.
\<close>

definition ctx_example :: "req_op \<Rightarrow> sector_t \<Rightarrow> u32 \<Rightarrow> convert_context" where
  "ctx_example op s n =
     \<lparr> restart = 0,
       bio_in = Some (bio_example op s n),
       bio_out = Some (bio_example op s n),
       iter_in = \<lparr>bi_sector = s, bi_size = n, bi_idx = 0, bi_bvec_done = 0\<rparr>,
       iter_out = \<lparr>bi_sector = s, bi_size = n, bi_idx = 0, bi_bvec_done = 0\<rparr>,
       cc_sector = s, cc_pending = 0, r_req = Some 0 \<rparr>"

definition env_ret :: "int \<Rightarrow> req_env" where
  "env_ret r =
     \<lparr> org_iv_buf = replicate 16 0, tag_iv_buf = replicate 16 0,
       data_in = replicate 512 0, data_out = replicate 512 0, crypt_ret = r \<rparr>"

text \<open>A crypto API whose MD5 fails.\<close>

definition api_md5_fails :: crypto_api where
  "api_md5_fails = api_example\<lparr>md5_export := (\<lambda>b. (- ENOMEM, []))\<rparr>"

text \<open>
  The loop state at the first iteration of a conversion of two 512-byte sectors starting
  at sector 0, and the state after a first submission that the cipher answered with
  \<^verbatim>\<open>-EBUSY\<close>.
\<close>

definition st_example :: conv_st where
  "st_example =
     \<lparr> st_ctx = (ctx_example REQ_OP_READ 0 1024)\<lparr>cc_pending := 1\<rparr>,
       st_tag_offset = 0, st_next_req = 1, st_trace = [] \<rparr>"

definition st_busy_example :: conv_st where
  "st_busy_example =
     \<lparr> st_ctx = (ctx_example REQ_OP_READ 0 1024)
                  \<lparr>cc_pending := 2,
                   iter_in := \<lparr>bi_sector = 1, bi_size = 512, bi_idx = 0, bi_bvec_done = 0\<rparr>,
                   iter_out := \<lparr>bi_sector = 1, bi_size = 512, bi_idx = 0, bi_bvec_done = 0\<rparr>\<rparr>,
       st_tag_offset = 0, st_next_req = 1,
       st_trace =
         [Ev_submit
            \<lparr> sub_req = Some 0, sub_sector = 0, sub_tag_offset = 0,
              sub_iter_in = \<lparr>bi_sector = 0, bi_size = 1024, bi_idx = 0, bi_bvec_done = 0\<rparr>,
              sub_iter_out = \<lparr>bi_sector = 0, bi_size = 1024, bi_idx = 0, bi_bvec_done = 0\<rparr> \<rparr>
            (- EBUSY)] \<rparr>"


section \<open>Properties of the IV generators\<close>

subsection \<open>Bytes and words\<close>

lemma length_le_bytes [simp]: "length (le_bytes n w) = n"
  by (simp add: le_bytes_def)






lemma plain_gen_eq:
  "length iv = iv_size cc \<Longrightarrow> 4 \<le> iv_size cc \<Longrightarrow>
   crypt_iv_plain_gen cc iv dmreq =
     (0, cpu_to_le32 (ucast (iv_sector dmreq AND 0xffffffff)) @ replicate (iv_size cc - 4) 0)"
  by (simp add: crypt_iv_plain_gen_def memset_def store_at_def cpu_to_le32_def Let_def)








lemma unat_plain32:
  "unat (ucast ((a::u64) AND 0xffffffff) :: u32) = unat a mod 2 ^ 32"
proof -
  have m: "(0xffffffff :: u64) = mask 32" by (simp add: mask_eq_exp_minus_1)
  have "unat (ucast (a AND 0xffffffff) :: u32) = take_bit 32 (unat (a AND mask 32))"
    by (simp add: unsigned_ucast_eq m)
  also have "\<dots> = take_bit 32 (take_bit 32 (unat a))"
    by (simp only: take_bit_eq_mask[symmetric] unsigned_take_bit_eq)
  also have "\<dots> = unat a mod 2 ^ 32" by (simp add: take_bit_eq_mod)
  finally show ?thesis .
qed

lemma plain32_inj:
  fixes a b :: u64
  assumes "(ucast (a AND 0xffffffff) :: u32) = ucast (b AND 0xffffffff)" 
          "unat a < 2 ^ 32" "unat b < 2 ^ 32"
  shows "a = b"
proof -
  have "unat a mod 2 ^ 32 = unat b mod 2 ^ 32"
    using assms(1) unat_plain32[of a] unat_plain32[of b] by simp
  then have "unat a = unat b" using assms(2,3) by simp
  then show ?thesis by (simp add: word_unat_eq_iff)
qed














subsection \<open>benbi: constructor and generator\<close>




subsection \<open>Determinism and distinct IVs\<close>






lemma generator_plain:
  "length iv = iv_size cc \<Longrightarrow> 8 \<le> iv_size cc \<Longrightarrow>
   generator api IV_plain cc iv dmreq =
     (0, cpu_to_le32 (ucast (iv_sector dmreq AND 0xffffffff)) @ replicate (iv_size cc - 4) 0, dmreq)"
  by (simp add: generator_def plain_gen_eq)














section \<open>Properties of the lmk and tcw constructors\<close>

text \<open>
  Claim C6. Whenever the configured sector size is not exactly 512 bytes, both
  \<^verbatim>\<open>crypt_iv_lmk_ctr\<close> and \<^verbatim>\<open>crypt_iv_tcw_ctr\<close> return \<^verbatim>\<open>-EINVAL\<close>, whatever the
  allocator would have answered; the configuration is returned as it was and no
  allocator call is made, so no generator state is left allocated.
\<close>

theorem crypt_iv_lmk_tcw_ctr_sector_size:
  assumes "unat (sector_size cc) \<noteq> 512"
  shows "crypt_iv_lmk_ctr cc shash seed_ok
           = (- EINVAL, cc, Some ''Unsupported sector size for LMK'', [])
       \<and> crypt_iv_tcw_ctr cc shash iv_seed_ok whitening_ok
           = (- EINVAL, cc, Some ''Unsupported sector size for TCW'', [])"
  using assms by (simp add: crypt_iv_lmk_ctr_def crypt_iv_tcw_ctr_def SECTOR_SHIFT_def)

theorem crypt_iv_lmk_tcw_ctr_sector_size_witness:
  "unat (sector_size (cc_example\<lparr>sector_size := 4096, key_size := 64\<rparr>)) \<noteq> 512
   \<and> crypt_iv_lmk_ctr (cc_example\<lparr>sector_size := 4096, key_size := 64\<rparr>) TFM_OK True
        = (- EINVAL, cc_example\<lparr>sector_size := 4096, key_size := 64\<rparr>,
           Some ''Unsupported sector size for LMK'', [])
   \<and> crypt_iv_tcw_ctr (cc_example\<lparr>sector_size := 4096, key_size := 64\<rparr>) TFM_OK True True
        = (- EINVAL, cc_example\<lparr>sector_size := 4096, key_size := 64\<rparr>,
           Some ''Unsupported sector size for TCW'', [])"
proof -
  have h: "unat (sector_size (cc_example\<lparr>sector_size := 4096, key_size := 64\<rparr>)) \<noteq> 512"
    by simp
  show ?thesis
    using h crypt_iv_lmk_tcw_ctr_sector_size[OF h, of TFM_OK True True True] by simp
qed

text \<open>
  With 512-byte sectors the same calls get past the guard: the constructors allocate
  their state and succeed.
\<close>

lemma crypt_iv_lmk_tcw_ctr_512_example:
  "fst (crypt_iv_lmk_ctr (cc_example\<lparr>key_size := 64\<rparr>) TFM_OK True) = 0
   \<and> fst (crypt_iv_tcw_ctr (cc_example\<lparr>key_size := 64\<rparr>) TFM_OK True True) = 0
   \<and> snd (snd (snd (crypt_iv_tcw_ctr (cc_example\<lparr>key_size := 64\<rparr>) TFM_OK True True)))
       = [Crypto_alloc_shash ''crc32'', Kzalloc 16, Kzalloc 16]"
  by code_simp

section \<open>Properties of \<^verbatim>\<open>crypt_map\<close>\<close>

subsection \<open>Alignment masks\<close>

lemma and_mask_dvd:
  fixes w :: "'a::len word"
  shows "(w AND mask k = 0) = (2 ^ k dvd unat w)"
proof -
  have "(w AND mask k = 0) = (unat (take_bit k w) = 0)"
    by (simp add: take_bit_eq_mask unat_eq_0)
  also have "\<dots> = (take_bit k (unat w) = 0)"
    by (simp only: unsigned_take_bit_eq)
  also have "\<dots> = (unat w mod 2 ^ k = 0)"
    by (simp only: take_bit_eq_mod)
  also have "\<dots> = (2 ^ k dvd unat w)" by (simp add: dvd_eq_mod_eq_0)
  finally show ?thesis .
qed

lemma u16_cases:
  assumes "unat (ss::u16) \<in> {512, 1024, 2048, 4096}"
  shows "ss = 512 \<or> ss = 1024 \<or> ss = 2048 \<or> ss = 4096"
  using assms by (auto simp: word_unat_eq_iff)

lemma sector_mask_dvd:
  assumes "unat (ss::u16) \<in> {512, 1024, 2048, 4096}"
  shows "((s::u64) AND (ucast (drop_bit SECTOR_SHIFT ss) - 1) \<noteq> 0)
           = (\<not> (unat ss div 512) dvd unat s)"
proof -
  have m: "(0::u64) = mask 0" "(1::u64) = mask 1" "(3::u64) = mask 2" "(7::u64) = mask 3"
    by (simp_all add: mask_eq_exp_minus_1)
  from u16_cases[OF assms] show ?thesis
  proof (elim disjE)
    assume "ss = 512" then show ?thesis by (simp add: SECTOR_SHIFT_def)
  next
    assume "ss = 1024" then show ?thesis
      using and_mask_dvd[of s 1] by (simp add: SECTOR_SHIFT_def m(2)[symmetric])
  next
    assume "ss = 2048" then show ?thesis
      using and_mask_dvd[of s 2] by (simp add: SECTOR_SHIFT_def m(3)[symmetric])
  next
    assume "ss = 4096" then show ?thesis
      using and_mask_dvd[of s 3] by (simp add: SECTOR_SHIFT_def m(4)[symmetric])
  qed
qed

lemma size_mask_dvd:
  assumes "unat (ss::u16) \<in> {512, 1024, 2048, 4096}"
  shows "((n::u32) AND (ucast ss - 1) \<noteq> 0) = (\<not> unat ss dvd unat n)"
proof -
  have m: "(511::u32) = mask 9" "(1023::u32) = mask 10" "(2047::u32) = mask 11" "(4095::u32) = mask 12"
    by (simp_all add: mask_eq_exp_minus_1)
  from u16_cases[OF assms] show ?thesis
  proof (elim disjE)
    assume "ss = 512" then show ?thesis
      using and_mask_dvd[of n 9] by (simp add: m(1)[symmetric])
  next
    assume "ss = 1024" then show ?thesis
      using and_mask_dvd[of n 10] by (simp add: m(2)[symmetric])
  next
    assume "ss = 2048" then show ?thesis
      using and_mask_dvd[of n 11] by (simp add: m(3)[symmetric])
  next
    assume "ss = 4096" then show ?thesis
      using and_mask_dvd[of n 12] by (simp add: m(4)[symmetric])
  qed
qed

subsection \<open>Flush and discard requests\<close>

text \<open>
  Claim C10. A bio that carries \<^verbatim>\<open>REQ_PREFLUSH\<close> or is a discard bypasses the whole
  pipeline: \<^verbatim>\<open>crypt_map\<close> directs it to the underlying device, translates its sector to
  \<open>start + dm_target_offset(ti, sector)\<close> when the bio carries sectors (and leaves the
  sector alone when it carries none), and returns \<^verbatim>\<open>DM_MAPIO_REMAPPED\<close>. No I/O tracking
  record is initialised and no call is made: no conversion is queued and nothing is
  allocated.
\<close>

theorem crypt_map_flush_discard_bypass:
  assumes "bi_preflush b \<or> bi_op b = REQ_OP_DISCARD"
  shows "crypt_map blk env ti cc b =
           (DM_MAPIO_REMAPPED,
            b\<lparr>bi_bdev := dev cc,
              bi_iter := (bi_iter b)\<lparr>bi_sector :=
                (if bio_sectors b \<noteq> 0
                 then start cc + dm_target_offset blk ti (bi_sector (bi_iter b))
                 else bi_sector (bi_iter b))\<rparr>\<rparr>,
            None, [])"
proof -
  have "crypt_map blk env ti cc b =
          (let b1 = b\<lparr>bi_bdev := dev cc\<rparr>;
               b2 = (if bio_sectors b1 \<noteq> 0
                     then b1\<lparr>bi_iter := (bi_iter b1)\<lparr>bi_sector :=
                            start cc + dm_target_offset blk ti (bi_sector (bi_iter b1))\<rparr>\<rparr>
                     else b1)
           in (DM_MAPIO_REMAPPED, b2, None, []))"
    using assms by (simp only: crypt_map_def if_True)
  then show ?thesis by (simp add: Let_def bio_sectors_def)
qed

theorem crypt_map_flush_discard_bypass_witness:
  "(bi_preflush (bio_example REQ_OP_DISCARD 8 4096)
      \<or> bi_op (bio_example REQ_OP_DISCARD 8 4096) = REQ_OP_DISCARD)
   \<and> crypt_map blk_example env_example ti_example (cc_example\<lparr>start := 2048\<rparr>)
        (bio_example REQ_OP_DISCARD 8 4096)
       = (DM_MAPIO_REMAPPED,
          \<lparr> bi_bdev = 1, bi_op = REQ_OP_DISCARD, bi_preflush = False,
            bi_iter = \<lparr>bi_sector = 2056, bi_size = 4096, bi_idx = 0, bi_bvec_done = 0\<rparr>,
            bi_status = BLK_STS_OK \<rparr>,
          None, [])"
proof -
  have h: "bi_preflush (bio_example REQ_OP_DISCARD 8 4096)
      \<or> bi_op (bio_example REQ_OP_DISCARD 8 4096) = REQ_OP_DISCARD"
    by (simp add: bio_example_def)
  have "crypt_map blk_example env_example ti_example (cc_example\<lparr>start := 2048\<rparr>)
        (bio_example REQ_OP_DISCARD 8 4096)
      = (DM_MAPIO_REMAPPED,
            (bio_example REQ_OP_DISCARD 8 4096)\<lparr>bi_bdev := dev (cc_example\<lparr>start := 2048\<rparr>),
              bi_iter := (bi_iter (bio_example REQ_OP_DISCARD 8 4096))\<lparr>bi_sector :=
                (if bio_sectors (bio_example REQ_OP_DISCARD 8 4096) \<noteq> 0
                 then start (cc_example\<lparr>start := 2048\<rparr>)
                        + dm_target_offset blk_example ti_example
                            (bi_sector (bi_iter (bio_example REQ_OP_DISCARD 8 4096)))
                 else bi_sector (bi_iter (bio_example REQ_OP_DISCARD 8 4096)))\<rparr>\<rparr>,
            None, [])"
    by (rule crypt_map_flush_discard_bypass[OF h])
  also have "\<dots> = (DM_MAPIO_REMAPPED,
          \<lparr> bi_bdev = 1, bi_op = REQ_OP_DISCARD, bi_preflush = False,
            bi_iter = \<lparr>bi_sector = 2056, bi_size = 4096, bi_idx = 0, bi_bvec_done = 0\<rparr>,
            bi_status = BLK_STS_OK \<rparr>,
          None, [])"
    by (simp add: bio_example_def cc_example_def blk_example_def ti_example_def
          bio_sectors_def SECTOR_SHIFT_def)
  finally show ?thesis by (rule conjI[OF h])
qed

subsection \<open>Requests that are not aligned\<close>

lemma crypt_map_split_shape:
  assumes "crypt_map_split blk cc b = (b1, a1)"
  shows "bi_sector (bi_iter b1) = bi_sector (bi_iter b)"
    and "bi_op b1 = bi_op b" and "bi_preflush b1 = bi_preflush b"
    and "a1 = [] \<or> (\<exists>n. a1 = [Accept_partial n])"
    and "unat (bi_size (bi_iter b)) \<le> push_bit (PAGE_SHIFT blk) (BIO_MAX_PAGES blk)
           \<Longrightarrow> b1 = b \<and> a1 = []"
  using assms
  by (auto simp: crypt_map_split_def Let_def dm_accept_partial_bio_def split: if_splits)

text \<open>
  Claim C8, as amended. Take a request that is neither a preflush nor a discard, on a
  configuration whose sector size is 512, 1024, 2048 or 4096 bytes, and let \<open>b1\<close> be the
  request after the split step that comes first in \<^verbatim>\<open>crypt_map\<close> (the step keeps the
  starting sector, and changes the length only of a request longer than \<^verbatim>\<open>BIO_MAX_PAGES\<close>
  pages that is a write or carries integrity tags). If the starting sector is not a
  multiple of the sector size in 512-byte units, or the byte length of \<open>b1\<close> is not a
  multiple of the sector size, \<^verbatim>\<open>crypt_map\<close> returns \<^verbatim>\<open>DM_MAPIO_KILL\<close>: no I/O tracking
  record is initialised, nothing is allocated or queued, the only call that may have been
  made being the one of the split step. Otherwise the request is accepted with a record.
\<close>

theorem crypt_map_rejects_unaligned:
  assumes valid: "unat (sector_size cc) \<in> {512, 1024, 2048, 4096}"
    and nf: "\<not> bi_preflush b" and nd: "bi_op b \<noteq> REQ_OP_DISCARD"
    and split: "crypt_map_split blk cc b = (b1, a1)"
  shows "bi_sector (bi_iter b1) = bi_sector (bi_iter b)
       \<and> (a1 = [] \<or> (\<exists>n. a1 = [Accept_partial n]))
       \<and> (unat (bi_size (bi_iter b)) \<le> push_bit (PAGE_SHIFT blk) (BIO_MAX_PAGES blk)
             \<longrightarrow> b1 = b \<and> a1 = [])
       \<and> (if \<not> (unat (sector_size cc) div 512) dvd unat (bi_sector (bi_iter b))
              \<or> \<not> unat (sector_size cc) dvd unat (bi_size (bi_iter b1))
           then crypt_map blk env ti cc b = (DM_MAPIO_KILL, b1, None, a1)
           else fst (crypt_map blk env ti cc b) = DM_MAPIO_SUBMITTED
                \<and> fst (snd (snd (crypt_map blk env ti cc b))) \<noteq> None)"
proof -
  note sh = crypt_map_split_shape[OF split]
  have s: "(bi_sector (bi_iter b1) AND (ucast (drop_bit SECTOR_SHIFT (sector_size cc)) - 1) \<noteq> 0)
           = (\<not> (unat (sector_size cc) div 512) dvd unat (bi_sector (bi_iter b)))"
    using sector_mask_dvd[OF valid, of "bi_sector (bi_iter b1)"] sh(1) by simp
  have n: "(bi_size (bi_iter b1) AND (ucast (sector_size cc) - 1) \<noteq> 0)
           = (\<not> unat (sector_size cc) dvd unat (bi_size (bi_iter b1)))"
    by (rule size_mask_dvd[OF valid])
  have front: "crypt_map blk env ti cc b =
      (if bi_sector (bi_iter b1)
            AND (ucast (drop_bit SECTOR_SHIFT (sector_size cc)) - 1) \<noteq> 0
         then (DM_MAPIO_KILL, b1, None, a1)
       else if bi_size (bi_iter b1) AND (ucast (sector_size cc) - 1) \<noteq> 0
         then (DM_MAPIO_KILL, b1, None, a1)
       else
         (let io0 = crypt_io_init b1 (dm_target_offset blk ti (bi_sector (bi_iter b1)));
              (b2, io1, a2) = crypt_map_tags blk env cc b1 io0;
              (io2, a3) = crypt_map_submit env cc (io1\<lparr>io_base_bio := b2\<rparr>)
          in (DM_MAPIO_SUBMITTED, b2, Some io2, a1 @ [Crypt_io_init] @ a2 @ a3)))"
    using nf nd by (simp only: crypt_map_def split if_False simp_thms prod.case Let_def)
  have kill: "crypt_map blk env ti cc b = (DM_MAPIO_KILL, b1, None, a1)"
    if "\<not> (unat (sector_size cc) div 512) dvd unat (bi_sector (bi_iter b))
          \<or> \<not> unat (sector_size cc) dvd unat (bi_size (bi_iter b1))"
    using that unfolding front s n by (elim disjE) (simp_all only: if_True if_False if_cancel simp_thms)
  have ok: "fst (crypt_map blk env ti cc b) = DM_MAPIO_SUBMITTED
                \<and> fst (snd (snd (crypt_map blk env ti cc b))) \<noteq> None"
    if "\<not> (\<not> (unat (sector_size cc) div 512) dvd unat (bi_sector (bi_iter b))
          \<or> \<not> unat (sector_size cc) dvd unat (bi_size (bi_iter b1)))"
    using that unfolding front s n by (simp add: Let_def split_beta)
  show ?thesis
  proof (cases "\<not> (unat (sector_size cc) div 512) dvd unat (bi_sector (bi_iter b))
          \<or> \<not> unat (sector_size cc) dvd unat (bi_size (bi_iter b1))")
    case True
    then show ?thesis using sh(1,4,5) kill[OF True] by (simp only: if_True) blast
  next
    case False
    then show ?thesis using sh(1,4,5) ok[OF False] by (simp only: if_False) blast
  qed
qed

lemma bio_example_sel:
  "bi_preflush (bio_example op s n) = False" "bi_op (bio_example op s n) = op"
  "bi_sector (bi_iter (bio_example op s n)) = s" "bi_size (bi_iter (bio_example op s n)) = n"
  by (simp_all add: bio_example_def)

lemma cc_4k_sel:
  "sector_size cc_4k = 4096" "on_disk_tag_size cc_4k = 0" "sector_shift cc_4k = 3"
  "cipher_flags cc_4k = {CRYPT_MODE_SKCIPHER}" "start cc_4k = 0" "dev cc_4k = 1"
  by (simp_all add: cc_4k_def cc_example_def)

lemma crypt_map_split_oversize_example:
  "crypt_map_split blk_example cc_4k (bio_example REQ_OP_WRITE 0 1049088)
     = (bio_example REQ_OP_WRITE 0 1048576, [Accept_partial 2048])"
  by (simp add: crypt_map_split_def blk_example_def bio_example_def bio_data_dir_def
        dm_accept_partial_bio_def SECTOR_SHIFT_def Let_def push_bit_eq_mult drop_bit_eq_div)

lemma crypt_map_split_small_example:
  "crypt_map_split blk_example cc_4k (bio_example REQ_OP_WRITE 3 4096)
     = (bio_example REQ_OP_WRITE 3 4096, [])"
  by (simp add: crypt_map_split_def blk_example_def bio_example_def bio_data_dir_def
        dm_accept_partial_bio_def SECTOR_SHIFT_def Let_def push_bit_eq_mult drop_bit_eq_div)

theorem crypt_map_rejects_unaligned_witness:
  "unat (sector_size cc_4k) \<in> {512, 1024, 2048, 4096}
   \<and> \<not> bi_preflush (bio_example REQ_OP_WRITE 3 4096)
   \<and> bi_op (bio_example REQ_OP_WRITE 3 4096) \<noteq> REQ_OP_DISCARD
   \<and> crypt_map_split blk_example cc_4k (bio_example REQ_OP_WRITE 3 4096)
        = (bio_example REQ_OP_WRITE 3 4096, [])
   \<and> crypt_map blk_example env_example ti_example cc_4k (bio_example REQ_OP_WRITE 3 4096)
        = (DM_MAPIO_KILL, bio_example REQ_OP_WRITE 3 4096, None, [])"
proof -
  have v: "unat (sector_size cc_4k) \<in> {512, 1024, 2048, 4096}" by (simp add: cc_4k_sel)
  have nf: "\<not> bi_preflush (bio_example REQ_OP_WRITE 3 4096)" by (simp add: bio_example_sel)
  have nd: "bi_op (bio_example REQ_OP_WRITE 3 4096) \<noteq> REQ_OP_DISCARD"
    by (simp add: bio_example_sel)
  note sp = crypt_map_split_small_example
  have mis: "(\<not> (unat (sector_size cc_4k) div 512) dvd
                  unat (bi_sector (bi_iter (bio_example REQ_OP_WRITE 3 4096)))
             \<or> \<not> unat (sector_size cc_4k) dvd
                  unat (bi_size (bi_iter (bio_example REQ_OP_WRITE 3 4096)))) = True"
    by (simp add: cc_4k_sel bio_example_sel)
  have k: "if \<not> (unat (sector_size cc_4k) div 512) dvd
                  unat (bi_sector (bi_iter (bio_example REQ_OP_WRITE 3 4096)))
             \<or> \<not> unat (sector_size cc_4k) dvd
                  unat (bi_size (bi_iter (bio_example REQ_OP_WRITE 3 4096)))
           then crypt_map blk_example env_example ti_example cc_4k
                  (bio_example REQ_OP_WRITE 3 4096)
                = (DM_MAPIO_KILL, bio_example REQ_OP_WRITE 3 4096, None, [])
           else fst (crypt_map blk_example env_example ti_example cc_4k
                       (bio_example REQ_OP_WRITE 3 4096)) = DM_MAPIO_SUBMITTED
                \<and> fst (snd (snd (crypt_map blk_example env_example ti_example cc_4k
                       (bio_example REQ_OP_WRITE 3 4096)))) \<noteq> None"
    by (rule crypt_map_rejects_unaligned[OF v nf nd sp, THEN conjunct2, THEN conjunct2,
          THEN conjunct2])
  have r: "crypt_map blk_example env_example ti_example cc_4k (bio_example REQ_OP_WRITE 3 4096)
        = (DM_MAPIO_KILL, bio_example REQ_OP_WRITE 3 4096, None, [])"
    using k by (simp only: mis if_True)
  show ?thesis by (intro conjI v nf nd sp r)
qed

text \<open>
  The claim as first stated fails in two ways. A discard that starts at sector 1 under
  4096-byte sectors is not rejected but remapped, since flush and discard requests leave
  \<^verbatim>\<open>crypt_map\<close> before the checks. A write of 1 MiB + 512 bytes, whose length is not a
  multiple of 4096, is not rejected either: the split step cuts it to 1 MiB first, and
  the accepted part passes the checks.
\<close>

theorem crypt_map_unaligned_not_rejected:
  "\<not> (unat (sector_size cc_4k) div 512) dvd
        unat (bi_sector (bi_iter (bio_example REQ_OP_DISCARD 1 4096)))
   \<and> fst (crypt_map blk_example env_example ti_example cc_4k (bio_example REQ_OP_DISCARD 1 4096))
        = DM_MAPIO_REMAPPED
   \<and> \<not> unat (sector_size cc_4k) dvd unat (bi_size (bi_iter (bio_example REQ_OP_WRITE 0 1049088)))
   \<and> fst (crypt_map blk_example env_example ti_example cc_4k (bio_example REQ_OP_WRITE 0 1049088))
        = DM_MAPIO_SUBMITTED"
proof (intro conjI)
  show "\<not> (unat (sector_size cc_4k) div 512) dvd
        unat (bi_sector (bi_iter (bio_example REQ_OP_DISCARD 1 4096)))"
    by (simp add: cc_4k_sel bio_example_sel)
  show "fst (crypt_map blk_example env_example ti_example cc_4k (bio_example REQ_OP_DISCARD 1 4096))
        = DM_MAPIO_REMAPPED"
    by (simp add: crypt_map_def bio_example_sel Let_def)
  show "\<not> unat (sector_size cc_4k) dvd unat (bi_size (bi_iter (bio_example REQ_OP_WRITE 0 1049088)))"
    by (simp add: cc_4k_sel bio_example_sel)
  show "fst (crypt_map blk_example env_example ti_example cc_4k (bio_example REQ_OP_WRITE 0 1049088))
        = DM_MAPIO_SUBMITTED"
    by (simp add: crypt_map_def crypt_map_split_oversize_example bio_example_sel cc_4k_sel
          SECTOR_SHIFT_def split_beta Let_def)
qed

section \<open>Properties of the write reordering stage\<close>









lemma io_sector_set_clone_sector [simp]:
  "io_sector (set_clone_sector cc io) = io_sector io"
  by (simp add: set_clone_sector_def)






section \<open>Properties of the cipher request builder\<close>



lemma skcipher_block_cases:
  "case skcipher_setup blk api cc ctx e of
     Inl r \<Rightarrow> crypt_convert_block_skcipher blk api cc ctx e tag = (r, ctx)
   | Inr x \<Rightarrow> snd (crypt_convert_block_skcipher blk api cc ctx e tag)
       = ctx\<lparr>iter_in := bio_advance_iter blk (bio_in ctx) (iter_in ctx) (ucast (sector_size cc)),
             iter_out := bio_advance_iter blk (bio_out ctx) (iter_out ctx)
                           (ucast (sector_size cc))\<rparr>"
  by (simp add: crypt_convert_block_skcipher_def Let_def split: sum.splits prod.splits)

lemma aead_block_cases:
  assumes "integrity_iv_size cc = 0 \<or> integrity_iv_size cc = iv_size cc"
  shows "case aead_setup blk api cc ctx e of
     Inl r \<Rightarrow> crypt_convert_block_aead blk api cc ctx e tag = Some (r, ctx)
   | Inr x \<Rightarrow> (\<exists>r. crypt_convert_block_aead blk api cc ctx e tag
       = Some (r, ctx\<lparr>iter_in := bio_advance_iter blk (bio_in ctx) (iter_in ctx)
                                   (ucast (sector_size cc)),
             iter_out := bio_advance_iter blk (bio_out ctx) (iter_out ctx)
                           (ucast (sector_size cc))\<rparr>))"
  using assms
  by (auto simp: crypt_convert_block_aead_def Let_def split: sum.splits prod.splits)





lemma cc_example_sel:
  "sector_size cc_example = 512" "iv_gen_ops cc_example = Some IV_plain"
  "integrity_iv_size cc_example = 0" "iv_size cc_example = 16"
  "cipher_flags cc_example = {CRYPT_MODE_SKCIPHER}" "sector_shift cc_example = 0"
  "flags cc_example = {DM_CRYPT_KEY_VALID}"
  by (simp_all add: cc_example_def)

lemma ctx_example_sel:
  "bio_in (ctx_example op s n) = Some (bio_example op s n)"
  "bio_out (ctx_example op s n) = Some (bio_example op s n)"
  "iter_in (ctx_example op s n) = \<lparr>bi_sector = s, bi_size = n, bi_idx = 0, bi_bvec_done = 0\<rparr>"
  "iter_out (ctx_example op s n) = \<lparr>bi_sector = s, bi_size = n, bi_idx = 0, bi_bvec_done = 0\<rparr>"
  "cc_sector (ctx_example op s n) = s" "cc_pending (ctx_example op s n) = 0"
  "r_req (ctx_example op s n) = Some 0" "restart (ctx_example op s n) = 0"
  by (simp_all add: ctx_example_def)

lemma blk_example_sel:
  "bio_iter_iovec_len blk_example b it = bi_size it"
  "bio_advance_iter blk_example b it n
     = it\<lparr>bi_sector := bi_sector it + drop_bit 9 (ucast n), bi_size := bi_size it - n\<rparr>"
  by (simp_all add: blk_example_def)

lemma env_ret_sel:
  "org_iv_buf (env_ret r) = replicate 16 0" "crypt_ret (env_ret r) = r"
  "(env_ret r)\<lparr>crypt_ret := r'\<rparr> = env_ret r'"
  by (simp_all add: env_ret_def)






text \<open>
  The other return from the set-up: an lmk write whose MD5 fails returns that error with
  the cursors unmoved.
\<close>

lemma crypt_convert_block_generator_fails_example:
  "crypt_convert_block_skcipher blk_example api_md5_fails
       (cc_example\<lparr>iv_gen_ops := Some IV_lmk\<rparr>) (ctx_example REQ_OP_WRITE 0 1024) (env_ret 0) 0
     = (- ENOMEM, ctx_example REQ_OP_WRITE 0 1024)"
  by (simp add: crypt_convert_block_skcipher_def skcipher_setup_def blk_example_sel
        ctx_example_sel cc_example_def env_ret_def generator_def crypt_iv_lmk_gen_def
        crypt_iv_lmk_one_def dmreq_of_def ctx_dir_def bio_data_dir_def bio_example_def
        api_md5_fails_def api_example_def ENOMEM_def Let_def)

section \<open>Properties of the conversion loop\<close>

lemma skcipher_block_keeps:
  assumes "crypt_convert_block_skcipher blk api cc ctx e tag = (r, ctx')"
  shows "cc_sector ctx' = cc_sector ctx \<and> cc_pending ctx' = cc_pending ctx
       \<and> r_req ctx' = r_req ctx \<and> restart ctx' = restart ctx
       \<and> bio_in ctx' = bio_in ctx \<and> bio_out ctx' = bio_out ctx"
proof (cases "skcipher_setup blk api cc ctx e")
  case (Inl a)
  then show ?thesis using assms skcipher_block_cases[of blk api cc ctx e tag] by simp
next
  case (Inr b)
  then have "ctx' = ctx\<lparr>iter_in := bio_advance_iter blk (bio_in ctx) (iter_in ctx)
                                   (ucast (sector_size cc)),
             iter_out := bio_advance_iter blk (bio_out ctx) (iter_out ctx)
                           (ucast (sector_size cc))\<rparr>"
    using assms skcipher_block_cases[of blk api cc ctx e tag] by simp
  then show ?thesis by simp
qed

lemma aead_block_keeps:
  assumes "crypt_convert_block_aead blk api cc ctx e tag = Some (r, ctx')"
  shows "cc_sector ctx' = cc_sector ctx \<and> cc_pending ctx' = cc_pending ctx
       \<and> r_req ctx' = r_req ctx \<and> restart ctx' = restart ctx
       \<and> bio_in ctx' = bio_in ctx \<and> bio_out ctx' = bio_out ctx"
proof -
  from assms have v: "integrity_iv_size cc = 0 \<or> integrity_iv_size cc = iv_size cc"
    by (auto simp: crypt_convert_block_aead_def split: if_splits)
  show ?thesis
  proof (cases "aead_setup blk api cc ctx e")
    case (Inl a)
    then show ?thesis using assms aead_block_cases[OF v, of blk api ctx e tag] by simp
  next
    case (Inr b)
    then have "ctx' = ctx\<lparr>iter_in := bio_advance_iter blk (bio_in ctx) (iter_in ctx)
                                   (ucast (sector_size cc)),
             iter_out := bio_advance_iter blk (bio_out ctx) (iter_out ctx)
                           (ucast (sector_size cc))\<rparr>"
      using assms aead_block_cases[OF v, of blk api ctx e tag] by auto
    then show ?thesis by simp
  qed
qed

lemma block_keeps:
  assumes "crypt_convert_block blk api cc ctx e tag = Some (r, ctx')"
  shows "cc_sector ctx' = cc_sector ctx \<and> cc_pending ctx' = cc_pending ctx
       \<and> r_req ctx' = r_req ctx \<and> restart ctx' = restart ctx
       \<and> bio_in ctx' = bio_in ctx \<and> bio_out ctx' = bio_out ctx"
  using assms skcipher_block_keeps aead_block_keeps
  by (auto simp: crypt_convert_block_def split: if_splits)

lemma alloc_req_keeps:
  "cc_sector (st_ctx (crypt_alloc_req st)) = cc_sector (st_ctx st)"
  "cc_pending (st_ctx (crypt_alloc_req st)) = cc_pending (st_ctx st)"
  "iter_in (st_ctx (crypt_alloc_req st)) = iter_in (st_ctx st)"
  "iter_out (st_ctx (crypt_alloc_req st)) = iter_out (st_ctx st)"
  "bio_in (st_ctx (crypt_alloc_req st)) = bio_in (st_ctx st)"
  "bio_out (st_ctx (crypt_alloc_req st)) = bio_out (st_ctx st)"
  "restart (st_ctx (crypt_alloc_req st)) = restart (st_ctx st)"
  "st_tag_offset (crypt_alloc_req st) = st_tag_offset st"
  "r_req (st_ctx (crypt_alloc_req st)) \<noteq> None"
  by (simp_all add: crypt_alloc_req_def)

lemma submit_keeps:
  assumes "crypt_convert_submit blk api cc e st = Some (r, st')"
  shows "cc_sector (st_ctx st') = cc_sector (st_ctx st)"
    and "cc_pending (st_ctx st') = cc_pending (st_ctx st) + 1"
    and "st_tag_offset st' = st_tag_offset st"
    and "r_req (st_ctx st') \<noteq> None"
    and "restart (st_ctx st') = restart (st_ctx st)"
proof -
  let ?st1 = "crypt_alloc_req st"
  let ?ctx1 = "(st_ctx ?st1)\<lparr>cc_pending := cc_pending (st_ctx ?st1) + 1\<rparr>"
  from assms obtain ctx2 where
    b: "crypt_convert_block blk api cc ?ctx1 e (st_tag_offset ?st1) = Some (r, ctx2)"
    and s: "st_ctx st' = ctx2" "st_tag_offset st' = st_tag_offset ?st1"
    by (auto simp: crypt_convert_submit_def Let_def split: option.splits)
  note k = block_keeps[OF b]
  show "cc_sector (st_ctx st') = cc_sector (st_ctx st)" using k s by (simp add: alloc_req_keeps)
  show "cc_pending (st_ctx st') = cc_pending (st_ctx st) + 1"
    using k s by (simp add: alloc_req_keeps)
  show "st_tag_offset st' = st_tag_offset st" using s by (simp add: alloc_req_keeps)
  show "r_req (st_ctx st') \<noteq> None" using k s by (simp add: alloc_req_keeps)
  show "restart (st_ctx st') = restart (st_ctx st)" using k s by (simp add: alloc_req_keeps)
qed

lemma setup_ctx_irrelevant:
  "skcipher_setup blk api cc (ctx\<lparr>cc_pending := p\<rparr>) e = skcipher_setup blk api cc ctx e"
  "skcipher_setup blk api cc (ctx\<lparr>r_req := q\<rparr>) e = skcipher_setup blk api cc ctx e"
  "aead_setup blk api cc (ctx\<lparr>cc_pending := p\<rparr>) e = aead_setup blk api cc ctx e"
  "aead_setup blk api cc (ctx\<lparr>r_req := q\<rparr>) e = aead_setup blk api cc ctx e"
  by (simp_all add: skcipher_setup_def aead_setup_def dmreq_of_def ctx_dir_def Let_def cong: option.case_cong if_cong)

lemma setup_alloc_req:
  "skcipher_setup blk api cc (st_ctx (crypt_alloc_req st)) e
     = skcipher_setup blk api cc (st_ctx st) e"
  "aead_setup blk api cc (st_ctx (crypt_alloc_req st)) e = aead_setup blk api cc (st_ctx st) e"
  by (simp_all add: crypt_alloc_req_def setup_ctx_irrelevant)

lemma submit_cursors:
  assumes sub: "crypt_convert_submit blk api cc e st = Some (r, st')"
    and reach: "if CRYPT_MODE_INTEGRITY_AEAD \<in> cipher_flags cc
                then aead_setup blk api cc (st_ctx st) e = Inr x
                else skcipher_setup blk api cc (st_ctx st) e = Inr x"
  shows "iter_in (st_ctx st') = bio_advance_iter blk (bio_in (st_ctx st)) (iter_in (st_ctx st))
                                   (ucast (sector_size cc))
       \<and> iter_out (st_ctx st') = bio_advance_iter blk (bio_out (st_ctx st)) (iter_out (st_ctx st))
                                   (ucast (sector_size cc))"
proof -
  let ?st1 = "crypt_alloc_req st"
  let ?ctx1 = "(st_ctx ?st1)\<lparr>cc_pending := cc_pending (st_ctx ?st1) + 1\<rparr>"
  from sub obtain ctx2 where
    b: "crypt_convert_block blk api cc ?ctx1 e (st_tag_offset ?st1) = Some (r, ctx2)"
    and s: "st_ctx st' = ctx2"
    by (auto simp: crypt_convert_submit_def Let_def split: option.splits)
  show ?thesis
  proof (cases "CRYPT_MODE_INTEGRITY_AEAD \<in> cipher_flags cc")
    case True
    with b have a: "crypt_convert_block_aead blk api cc ?ctx1 e (st_tag_offset ?st1) = Some (r, ctx2)"
      by (simp add: crypt_convert_block_def)
    then have v: "integrity_iv_size cc = 0 \<or> integrity_iv_size cc = iv_size cc"
      by (auto simp: crypt_convert_block_aead_def split: if_splits)
    have "aead_setup blk api cc ?ctx1 e = Inr x"
      using reach True by (simp add: setup_ctx_irrelevant setup_alloc_req)
    then show ?thesis
      using aead_block_cases[OF v, of blk api ?ctx1 e "st_tag_offset ?st1"] a s
      by (auto simp: alloc_req_keeps)
  next
    case False
    with b have a: "crypt_convert_block_skcipher blk api cc ?ctx1 e (st_tag_offset ?st1) = (r, ctx2)"
      by (simp add: crypt_convert_block_def)
    have "skcipher_setup blk api cc ?ctx1 e = Inr x"
      using reach False by (simp add: setup_ctx_irrelevant setup_alloc_req)
    then show ?thesis
      using skcipher_block_cases[of blk api cc ?ctx1 e "st_tag_offset ?st1"] a s
      by (auto simp: alloc_req_keeps)
  qed
qed

lemma submissions_append [simp]:
  "submissions (xs @ ys) = submissions xs @ submissions ys"
  by (induction xs rule: submissions.induct) simp_all

lemma submit_trace:
  assumes "crypt_convert_submit blk api cc e st = Some (r, st')"
  shows "submissions (st_trace st')
           = submissions (st_trace st)
             @ [(\<lparr> sub_req = r_req (st_ctx (crypt_alloc_req st)),
                   sub_sector = cc_sector (st_ctx st), sub_tag_offset = st_tag_offset st,
                   sub_iter_in = iter_in (st_ctx st), sub_iter_out = iter_out (st_ctx st) \<rparr>, r)]"
  using assms
  by (auto simp: crypt_convert_submit_def Let_def alloc_req_keeps crypt_alloc_req_def
           split: option.splits)


text \<open>
  Claim C1, as amended. When a submission returns \<^verbatim>\<open>-EBUSY\<close> the loop waits for the
  restart signal and then goes on exactly as after \<^verbatim>\<open>-EINPROGRESS\<close> (the \<^verbatim>\<open>-EBUSY\<close>
  arm falls through): it lets go of the request, advances the sector cursor by one
  sector step and the tag offset by one, keeps the increment of the pending counter, and
  runs the next iteration from the data cursors the builder left, which stand one
  sector-group further when the answer came from the cipher. The busy sub-request is in
  the trace once; it is not submitted again.
\<close>

theorem crypt_convert_busy_continues:
  assumes rem: "data_remains st"
    and sub: "crypt_convert_submit blk api cc e st = Some (- EBUSY, st')"
  shows "crypt_convert_loop blk api cc st (e # es)
           = crypt_convert_loop blk api cc (conv_queued cc (conv_waited st')) es
       \<and> crypt_convert_switch cc (- EINPROGRESS) st' = Next_iteration (conv_queued cc st')
       \<and> conv_queued cc (conv_waited st')
           = (conv_queued cc st')
               \<lparr>st_ctx := (st_ctx (conv_queued cc st'))\<lparr>restart := 0\<rparr>,
                st_trace := st_trace st' @ [Ev_wait_restart]\<rparr>
       \<and> cc_sector (st_ctx (conv_queued cc (conv_waited st')))
           = cc_sector (st_ctx st) + sector_step cc
       \<and> st_tag_offset (conv_queued cc (conv_waited st')) = st_tag_offset st + 1
       \<and> r_req (st_ctx (conv_queued cc (conv_waited st'))) = None
       \<and> cc_pending (st_ctx (conv_queued cc (conv_waited st'))) = cc_pending (st_ctx st) + 1
       \<and> iter_in (st_ctx (conv_queued cc (conv_waited st'))) = iter_in (st_ctx st')
       \<and> iter_out (st_ctx (conv_queued cc (conv_waited st'))) = iter_out (st_ctx st')
       \<and> ((if CRYPT_MODE_INTEGRITY_AEAD \<in> cipher_flags cc
            then aead_setup blk api cc (st_ctx st) e = Inr x
            else skcipher_setup blk api cc (st_ctx st) e = Inr x) \<longrightarrow>
           iter_in (st_ctx st') = bio_advance_iter blk (bio_in (st_ctx st)) (iter_in (st_ctx st))
                                    (ucast (sector_size cc))
           \<and> iter_out (st_ctx st') = bio_advance_iter blk (bio_out (st_ctx st))
                                    (iter_out (st_ctx st)) (ucast (sector_size cc)))
       \<and> submissions (st_trace (conv_queued cc (conv_waited st')))
           = submissions (st_trace st)
             @ [(\<lparr> sub_req = r_req (st_ctx (crypt_alloc_req st)),
                   sub_sector = cc_sector (st_ctx st), sub_tag_offset = st_tag_offset st,
                   sub_iter_in = iter_in (st_ctx st), sub_iter_out = iter_out (st_ctx st) \<rparr>,
                 - EBUSY)]"
proof -
  note k = submit_keeps[OF sub]
  have sw: "crypt_convert_switch cc (- EBUSY) st' = Next_iteration (conv_queued cc (conv_waited st'))"
    by (simp add: crypt_convert_switch_def)
  have l: "crypt_convert_loop blk api cc st (e # es)
           = crypt_convert_loop blk api cc (conv_queued cc (conv_waited st')) es"
    using rem sub sw by simp
  have q: "crypt_convert_switch cc (- EINPROGRESS) st' = Next_iteration (conv_queued cc st')"
    by (simp add: crypt_convert_switch_def EBUSY_def EINPROGRESS_def)
  have d: "conv_queued cc (conv_waited st')
           = (conv_queued cc st')
               \<lparr>st_ctx := (st_ctx (conv_queued cc st'))\<lparr>restart := 0\<rparr>,
                st_trace := st_trace st' @ [Ev_wait_restart]\<rparr>"
    by (simp add: conv_queued_def conv_waited_def)
  have f: "cc_sector (st_ctx (conv_queued cc (conv_waited st')))
           = cc_sector (st_ctx st) + sector_step cc"
    "st_tag_offset (conv_queued cc (conv_waited st')) = st_tag_offset st + 1"
    "r_req (st_ctx (conv_queued cc (conv_waited st'))) = None"
    "cc_pending (st_ctx (conv_queued cc (conv_waited st'))) = cc_pending (st_ctx st) + 1"
    "iter_in (st_ctx (conv_queued cc (conv_waited st'))) = iter_in (st_ctx st')"
    "iter_out (st_ctx (conv_queued cc (conv_waited st'))) = iter_out (st_ctx st')"
    using k by (simp_all add: conv_queued_def conv_waited_def)
  have t: "submissions (st_trace (conv_queued cc (conv_waited st')))
           = submissions (st_trace st)
             @ [(\<lparr> sub_req = r_req (st_ctx (crypt_alloc_req st)),
                   sub_sector = cc_sector (st_ctx st), sub_tag_offset = st_tag_offset st,
                   sub_iter_in = iter_in (st_ctx st), sub_iter_out = iter_out (st_ctx st) \<rparr>,
                 - EBUSY)]"
    using submit_trace[OF sub] by (simp add: conv_queued_def conv_waited_def)
  have c: "(if CRYPT_MODE_INTEGRITY_AEAD \<in> cipher_flags cc
            then aead_setup blk api cc (st_ctx st) e = Inr x
            else skcipher_setup blk api cc (st_ctx st) e = Inr x) \<longrightarrow>
           iter_in (st_ctx st') = bio_advance_iter blk (bio_in (st_ctx st)) (iter_in (st_ctx st))
                                    (ucast (sector_size cc))
           \<and> iter_out (st_ctx st') = bio_advance_iter blk (bio_out (st_ctx st))
                                    (iter_out (st_ctx st)) (ucast (sector_size cc))"
    using submit_cursors[OF sub] by blast
  show ?thesis by (intro conjI l q d f t c)
qed

lemma st_example_remains: "data_remains st_example"
  by (simp add: data_remains_def st_example_def ctx_example_sel)

lemma submit_busy_example:
  "crypt_convert_submit blk_example api_example cc_example (env_ret (- EBUSY)) st_example
     = Some (- EBUSY, st_busy_example)"
  by (simp add: crypt_convert_submit_def crypt_alloc_req_def crypt_convert_block_def
        crypt_convert_block_skcipher_def skcipher_setup_def blk_example_sel ctx_example_sel
        cc_example_sel env_ret_sel generator_plain has_post_def Let_def
        st_example_def st_busy_example_def EBUSY_def ctx_example_def)


lemma setup_busy_example:
  "skcipher_setup blk_example api_example cc_example (st_ctx st_example) (env_ret (- EBUSY))
     = Inr (cpu_to_le32 (ucast (iv_sector (dmreq_of cc_example (st_ctx st_example)
                                             (env_ret (- EBUSY))) AND 0xffffffff))
              @ replicate 12 0,
            dmreq_of cc_example (st_ctx st_example) (env_ret (- EBUSY)))"
  by (simp add: skcipher_setup_def blk_example_sel ctx_example_sel cc_example_sel env_ret_sel
        generator_plain Let_def st_example_def)

lemma cc_example_not_aead: "CRYPT_MODE_INTEGRITY_AEAD \<notin> cipher_flags cc_example"
  by (simp add: cc_example_sel)

theorem crypt_convert_busy_continues_witness:
  "data_remains st_example
   \<and> crypt_convert_submit blk_example api_example cc_example (env_ret (- EBUSY)) st_example
       = Some (- EBUSY, st_busy_example)
   \<and> CRYPT_MODE_INTEGRITY_AEAD \<notin> cipher_flags cc_example
   \<and> skcipher_setup blk_example api_example cc_example (st_ctx st_example) (env_ret (- EBUSY))
       = Inr (cpu_to_le32 (ucast (iv_sector (dmreq_of cc_example (st_ctx st_example)
                                               (env_ret (- EBUSY))) AND 0xffffffff))
                @ replicate 12 0,
              dmreq_of cc_example (st_ctx st_example) (env_ret (- EBUSY)))
   \<and> crypt_convert_loop blk_example api_example cc_example st_example
         [env_ret (- EBUSY), env_ret 0]
       = crypt_convert_loop blk_example api_example cc_example
           (conv_queued cc_example (conv_waited st_busy_example)) [env_ret 0]
   \<and> cc_sector (st_ctx (conv_queued cc_example (conv_waited st_busy_example))) = 1
   \<and> st_tag_offset (conv_queued cc_example (conv_waited st_busy_example)) = 1
   \<and> r_req (st_ctx (conv_queued cc_example (conv_waited st_busy_example))) = None
   \<and> cc_pending (st_ctx (conv_queued cc_example (conv_waited st_busy_example))) = 2
   \<and> iter_in (st_ctx st_busy_example)
       = bio_advance_iter blk_example (bio_in (st_ctx st_example)) (iter_in (st_ctx st_example))
           (ucast (sector_size cc_example))"
proof -
  note t = crypt_convert_busy_continues[OF st_example_remains submit_busy_example,
      where es = "[env_ret 0]"
        and x = "(cpu_to_le32 (ucast (iv_sector (dmreq_of cc_example (st_ctx st_example)
                                               (env_ret (- EBUSY))) AND 0xffffffff))
                @ replicate 12 0,
              dmreq_of cc_example (st_ctx st_example) (env_ret (- EBUSY)))"]
  have s: "sector_step cc_example = 1"
    by (simp add: sector_step_def SECTOR_SHIFT_def cc_example_sel)
  have p: "cc_sector (st_ctx st_example) = 0" "st_tag_offset st_example = 0"
    "cc_pending (st_ctx st_example) = 1"
    by (simp_all add: st_example_def ctx_example_sel)
  from t have l: "crypt_convert_loop blk_example api_example cc_example st_example
         [env_ret (- EBUSY), env_ret 0]
       = crypt_convert_loop blk_example api_example cc_example
           (conv_queued cc_example (conv_waited st_busy_example)) [env_ret 0]"
    by (rule conjunct1)
  note t2 = t[THEN conjunct2, THEN conjunct2, THEN conjunct2]
  have a: "cc_sector (st_ctx (conv_queued cc_example (conv_waited st_busy_example))) = 1"
    using t2[THEN conjunct1] by (simp add: s p)
  note t3 = t2[THEN conjunct2]
  have b: "st_tag_offset (conv_queued cc_example (conv_waited st_busy_example)) = 1"
    using t3[THEN conjunct1] by (simp add: s p)
  note t4 = t3[THEN conjunct2]
  have c: "r_req (st_ctx (conv_queued cc_example (conv_waited st_busy_example))) = None"
    using t4[THEN conjunct1] .
  note t5 = t4[THEN conjunct2]
  have d: "cc_pending (st_ctx (conv_queued cc_example (conv_waited st_busy_example))) = 2"
    using t5[THEN conjunct1] by (simp add: s p)
  note t8 = t5[THEN conjunct2, THEN conjunct2, THEN conjunct2, THEN conjunct1]
  have e: "iter_in (st_ctx st_busy_example)
       = bio_advance_iter blk_example (bio_in (st_ctx st_example)) (iter_in (st_ctx st_example))
           (ucast (sector_size cc_example))"
    using t8 setup_busy_example cc_example_not_aead
    by (simp only: if_False simp_thms)
  show ?thesis
    by (intro conjI st_example_remains submit_busy_example cc_example_not_aead
          setup_busy_example l a b c d e)
qed

text \<open>
  Claim C1 as stated does not hold. A conversion of two 512-byte sectors whose first
  submission is answered with \<^verbatim>\<open>-EBUSY\<close> and whose second with 0 submits twice: sector 0
  with tag offset 0 on request 0, then sector 1 with tag offset 1 on a fresh request,
  with the data cursors one sector further. The second submission is not a retry of
  the first.
\<close>

theorem crypt_convert_busy_not_retried:
  "map_option (\<lambda>(s, st). (s, submissions (st_trace st), cc_pending (st_ctx st)))
     (crypt_convert blk_example api_example cc_example (ctx_example REQ_OP_READ 0 1024) 1
        [env_ret (- EBUSY), env_ret 0])
   = Some (BLK_STS_OK,
           [(\<lparr> sub_req = Some 0, sub_sector = 0, sub_tag_offset = 0,
                sub_iter_in = \<lparr>bi_sector = 0, bi_size = 1024, bi_idx = 0, bi_bvec_done = 0\<rparr>,
                sub_iter_out = \<lparr>bi_sector = 0, bi_size = 1024, bi_idx = 0, bi_bvec_done = 0\<rparr> \<rparr>,
             - EBUSY),
            (\<lparr> sub_req = Some 1, sub_sector = 1, sub_tag_offset = 1,
                sub_iter_in = \<lparr>bi_sector = 1, bi_size = 512, bi_idx = 0, bi_bvec_done = 0\<rparr>,
                sub_iter_out = \<lparr>bi_sector = 1, bi_size = 512, bi_idx = 0, bi_bvec_done = 0\<rparr> \<rparr>,
             0)],
           2)"
  by (simp add: crypt_convert_def data_remains_def crypt_convert_submit_def crypt_alloc_req_def
        crypt_convert_block_def crypt_convert_block_skcipher_def skcipher_setup_def
        blk_example_sel ctx_example_sel cc_example_sel env_ret_sel generator_plain
        crypt_convert_switch_def EBUSY_def EINPROGRESS_def EBADMSG_def conv_queued_def
        conv_waited_def conv_sync_def conv_dec_def sector_step_def SECTOR_SHIFT_def
        has_post_def Let_def)


end
